theory Spec2Isabelle
  imports Complex_Main "HOL-Library.Multiset"
begin

section \<open>JavaScript values used by the controllers\<close>

text \<open>
  Conventions of the embedding.
  \<^item> A finite JavaScript number is the rational it denotes (\<open>rat\<close>); counts are natural
    numbers. The sums of the breakdown buckets and the rates of the activity report are
    computed as JavaScript computes them, each operation rounded to the nearest double
    (\<open>jsAdd\<close>, \<open>jsDiv\<close>, \<open>jsTimes\<close>), with \<open>None\<close> for a result that is not finite. The
    other sums, differences, products and quotients are written with the exact
    operations and stand for the value of the program's own expression.
  \<^item> A number that can be \<open>NaN\<close> (the result of \<open>parseInt\<close>) is an \<open>int option\<close>, with
    \<open>None\<close> for \<open>NaN\<close>.
  \<^item> A \<open>Date\<close> is its time value, the milliseconds since the epoch, an \<open>int\<close>; an invalid
    date is \<open>None\<close> of \<open>int option\<close>.
  \<^item> A plain object used as a dictionary is an association list in insertion order, which
    is the order of \<open>Object.values\<close> for keys that are not array indices. Properties
    inherited from \<open>Object.prototype\<close> are not modelled.
\<close>

type_synonym 'v jsobj = "(string \<times> 'v) list"

fun obj_get :: "'v jsobj \<Rightarrow> string \<Rightarrow> 'v option" where
  "obj_get [] k = None"
| "obj_get ((k', v) # rest) k = (if k' = k then Some v else obj_get rest k)"

fun obj_set :: "'v jsobj \<Rightarrow> string \<Rightarrow> 'v \<Rightarrow> 'v jsobj" where
  "obj_set [] k v = [(k, v)]"
| "obj_set ((k', v') # rest) k v =
     (if k' = k then (k', v) # rest else (k', v') # obj_set rest k v)"

definition obj_values :: "'v jsobj \<Rightarrow> 'v list" where
  "obj_values obj = map snd obj"

definition obj_keys :: "'v jsobj \<Rightarrow> string list" where
  "obj_keys obj = map fst obj"

subsection \<open>Dates\<close>

definition msPerDay :: int where
  "msPerDay = 86400000"

definition Day :: "int \<Rightarrow> int" where
  "Day t = t div msPerDay"

definition TimeWithinDay :: "int \<Rightarrow> int" where
  "TimeWithinDay t = t mod msPerDay"

text \<open>
  Year, month (1 to 12) and day of the month of a day number counted from 1970-01-01 in
  the proleptic Gregorian calendar. The computation works in eras of 400 years that begin
  on 1 March, so that the leap day is the last day of a year of the era.
\<close>

definition civil :: "int \<Rightarrow> int \<times> int \<times> int" where
  "civil z0 =
    (let z = z0 + 719468;
         era = z div 146097;
         doe = z mod 146097;
         yoe = (doe - doe div 1460 + doe div 36524 - doe div 146096) div 365;
         doy = doe - (365 * yoe + yoe div 4 - yoe div 100);
         mp = (5 * doy + 2) div 153;
         d = doy - (153 * mp + 2) div 5 + 1;
         m = (if mp < 10 then mp + 3 else mp - 9);
         y = yoe + era * 400 + (if m \<le> 2 then 1 else 0)
     in (y, m, d))"

definition YearFromTime :: "int \<Rightarrow> int" where
  "YearFromTime t = fst (civil (Day t))"

definition MonthFromTime :: "int \<Rightarrow> int" where
  \<comment> \<open>0 for January, as \<open>getMonth\<close> returns it\<close>
  "MonthFromTime t = fst (snd (civil (Day t))) - 1"

definition DateFromTime :: "int \<Rightarrow> int" where
  "DateFromTime t = snd (snd (civil (Day t)))"

definition WeekDay :: "int \<Rightarrow> int" where
  \<comment> \<open>0 for Sunday; 1970-01-01 was a Thursday\<close>
  "WeekDay t = (Day t + 4) mod 7"

fun digits :: "nat \<Rightarrow> nat \<Rightarrow> string" where
  "digits 0 n = []"
| "digits (Suc w) n = digits w (n div 10) @ [char_of (48 + n mod 10)]"

definition isoYear :: "int \<Rightarrow> string" where
  "isoYear y =
    (if 0 \<le> y \<and> y \<le> 9999 then digits 4 (nat y)
     else (if y < 0 then ''-'' else ''+'') @ digits 6 (nat \<bar>y\<bar>))"

definition isoDate :: "int \<Rightarrow> string" where
  \<comment> \<open>\<open>d.toISOString().split("T")[0]\<close>: the UTC calendar date of a valid time value\<close>
  "isoDate t =
    (case civil (Day t) of (y, m, d) \<Rightarrow>
       isoYear y @ ''-'' @ digits 2 (nat m) @ ''-'' @ digits 2 (nat d))"

section \<open>Double-precision numbers\<close>

text \<open>
  \<open>fl x\<close> is the double nearest to the rational \<open>x\<close>: a significand of 53 bits, ties to
  the even significand, the least exponent that of the subnormal numbers, and no bound on
  the exponent above. \<open>toDouble\<close> is the result of an operation whose exact value is \<open>x\<close>:
  the rounded value when it is below \<open>2 ^ 1024\<close> in magnitude, and no finite number
  otherwise. \<open>bitLength n\<close> is the number of binary digits of \<open>n\<close> and \<open>ilog2 x\<close> the
  exponent of the power of two at or below a positive \<open>x\<close>.
\<close>

function bitLength :: "int \<Rightarrow> nat" where
  "bitLength n = (if n \<le> 0 then 0 else Suc (bitLength (n div 2)))"
  by pat_completeness auto
termination
  by (relation "measure nat") auto

declare bitLength.simps [simp del]

definition pow2 :: "int \<Rightarrow> rat" where
  "pow2 k = (if 0 \<le> k then 2 ^ nat k else 1 / 2 ^ nat (- k))"

definition ilog2 :: "rat \<Rightarrow> int" where
  "ilog2 x =
    (if 1 \<le> x then int (bitLength \<lfloor>x\<rfloor>) - 1
     else let c = int (bitLength \<lfloor>1 / x\<rfloor>) - 1
          in if 1 / x = pow2 c then - c else - c - 1)"

definition roundHalfEven :: "rat \<Rightarrow> int" where
  "roundHalfEven q =
    (let f = \<lfloor>q\<rfloor>; r = q - of_int f
     in if r < 1 / 2 then f
        else if 1 / 2 < r then f + 1
        else if even f then f else f + 1)"

definition fl :: "rat \<Rightarrow> rat" where
  "fl x =
    (if x = 0 then 0
     else let e = max (ilog2 \<bar>x\<bar> - 52) (- 1074);
              n = roundHalfEven (\<bar>x\<bar> / pow2 e)
          in sgn x * of_int n * pow2 e)"

definition toDouble :: "rat \<Rightarrow> rat option" where
  "toDouble x = (let r = fl x in if \<bar>r\<bar> < pow2 1024 then Some r else None)"

definition jsAdd :: "rat option \<Rightarrow> rat \<Rightarrow> rat option" where
  \<comment> \<open>\<open>s + a\<close> for a finite \<open>a\<close>; a sum that is not finite stays so\<close>
  "jsAdd s a = (case s of None \<Rightarrow> None | Some x \<Rightarrow> toDouble (x + a))"

section \<open>Deposits report\<close>

record deposit =
  amount :: rat
  transactionStatus :: string
  payMethod :: "string option"
  createdAt :: int

record bucket =
  bucket_count :: nat
  bucket_amount :: "rat option"

record statusTotals =
  st_count :: nat
  st_amount :: rat

record depositsSummary =
  totalCount :: nat
  totalAmount :: rat
  pending :: statusTotals
  approved :: statusTotals
  rejected :: statusTotals
  averageDeposit :: rat

definition sumAmount :: "deposit list \<Rightarrow> rat" where
  \<comment> \<open>\<open>ds.reduce((sum, d) => sum + d.amount, 0)\<close>\<close>
  "sumAmount ds = fold (\<lambda>d sum. sum + amount d) ds 0"

definition withStatus :: "string \<Rightarrow> deposit list \<Rightarrow> deposit list" where
  "withStatus s ds = filter (\<lambda>d. transactionStatus d = s) ds"

definition depositsSummaryOf :: "deposit list \<Rightarrow> depositsSummary" where
  "depositsSummaryOf deposits =
    (let totalDeposits = sumAmount deposits;
         pendingDeposits = withStatus ''PENDING'' deposits;
         approvedDeposits = withStatus ''APPROVED'' deposits;
         rejectedDeposits = withStatus ''REJECTED'' deposits
     in \<lparr> totalCount = length deposits,
          totalAmount = totalDeposits,
          pending = \<lparr> st_count = length pendingDeposits, st_amount = sumAmount pendingDeposits \<rparr>,
          approved = \<lparr> st_count = length approvedDeposits, st_amount = sumAmount approvedDeposits \<rparr>,
          rejected = \<lparr> st_count = length rejectedDeposits, st_amount = sumAmount rejectedDeposits \<rparr>,
          averageDeposit =
            (if length deposits > 0 then totalDeposits / of_nat (length deposits) else 0) \<rparr>)"

definition addToBucket :: "string \<Rightarrow> rat \<Rightarrow> bucket jsobj \<Rightarrow> bucket jsobj" where
  \<comment> \<open>\<open>if (!acc[k]) acc[k] = {count: 0, amount: 0}; acc[k].count++; acc[k].amount += a\<close>\<close>
  "addToBucket k a acc =
    (let acc1 = (case obj_get acc k of
                   None \<Rightarrow> obj_set acc k \<lparr> bucket_count = 0, bucket_amount = Some 0 \<rparr>
                 | Some _ \<Rightarrow> acc)
     in case obj_get acc1 k of
          None \<Rightarrow> acc1
        | Some b \<Rightarrow>
            obj_set acc1 k \<lparr> bucket_count = bucket_count b + 1,
                            bucket_amount = jsAdd (bucket_amount b) a \<rparr>)"

definition byMethod :: "deposit list \<Rightarrow> bucket jsobj" where
  "byMethod deposits =
    fold (\<lambda>d acc.
            addToBucket (case payMethod d of None \<Rightarrow> ''Unknown''
                         | Some m \<Rightarrow> (if m = [] then ''Unknown'' else m))
                        (amount d) acc)
         deposits []"

definition dailyBreakdown :: "deposit list \<Rightarrow> bucket jsobj" where
  "dailyBreakdown deposits =
    fold (\<lambda>d acc. addToBucket (isoDate (createdAt d)) (amount d) acc) deposits []"

record depositsReport =
  summary :: depositsSummary
  rep_byMethod :: "bucket jsobj"
  rep_dailyBreakdown :: "bucket jsobj"

definition getDepositsReport :: "deposit list \<Rightarrow> depositsReport" where
  \<comment> \<open>the report computed from the rows that \<open>db.deposit.findMany\<close> returned\<close>
  "getDepositsReport deposits =
    \<lparr> summary = depositsSummaryOf deposits,
      rep_byMethod = byMethod deposits,
      rep_dailyBreakdown = dailyBreakdown deposits \<rparr>"

definition scenarioDeposits :: "deposit list" where
  \<comment> \<open>the three deposits of the report scenario\<close>
  "scenarioDeposits =
    [\<lparr> amount = 1000, transactionStatus = ''APPROVED'', payMethod = None, createdAt = 0 \<rparr>,
     \<lparr> amount = 500, transactionStatus = ''PENDING'', payMethod = None, createdAt = 0 \<rparr>,
     \<lparr> amount = 200, transactionStatus = ''REJECTED'', payMethod = None, createdAt = 0 \<rparr>]"

section \<open>Top-N rankings\<close>

text \<open>
  \<open>Array.prototype.sort\<close> with a comparator \<open>cmp\<close>: \<open>cmp a b > 0\<close> puts \<open>b\<close> first. The
  sort is stable, so for a consistent comparator its result is determined; it is computed
  here by inserting the elements from the right, each one in front of the first element
  it does not have to follow.
\<close>

fun insertBy :: "('a \<Rightarrow> 'a \<Rightarrow> 'n::{linorder,zero}) \<Rightarrow> 'a \<Rightarrow> 'a list \<Rightarrow> 'a list" where
  "insertBy cmp x [] = [x]"
| "insertBy cmp x (y # ys) =
     (if cmp x y \<le> 0 then x # y # ys else y # insertBy cmp x ys)"

definition js_sort :: "('a \<Rightarrow> 'a \<Rightarrow> 'n::{linorder,zero}) \<Rightarrow> 'a list \<Rightarrow> 'a list" where
  "js_sort cmp xs = foldr (insertBy cmp) xs []"



section \<open>User activity report\<close>

record activity =
  a_userId :: string
  a_user :: string
  a_action :: string
  a_status :: "string option"
  a_durationMs :: "int option"
  a_createdAt :: int

record userCount =
  uc_user :: string
  uc_count :: nat

definition orUnknown :: "string option \<Rightarrow> string" where
  \<comment> \<open>\<open>v || "Unknown"\<close> for a nullable string column\<close>
  "orUnknown v = (case v of None \<Rightarrow> ''Unknown'' | Some s \<Rightarrow> (if s = [] then ''Unknown'' else s))"

definition countOr0 :: "nat jsobj \<Rightarrow> string \<Rightarrow> nat" where
  \<comment> \<open>\<open>acc[k] || 0\<close>\<close>
  "countOr0 acc k = (case obj_get acc k of None \<Rightarrow> 0 | Some c \<Rightarrow> (if c = 0 then 0 else c))"

definition byStatus :: "activity list \<Rightarrow> nat jsobj" where
  "byStatus activities =
    fold (\<lambda>a acc. let status = orUnknown (a_status a)
                   in obj_set acc status (countOr0 acc status + 1))
         activities []"

definition userActivityCount :: "activity list \<Rightarrow> userCount jsobj" where
  "userActivityCount activities =
    fold (\<lambda>a acc.
            let userId = a_userId a;
                acc1 = (case obj_get acc userId of
                          None \<Rightarrow> obj_set acc userId \<lparr> uc_user = a_user a, uc_count = 0 \<rparr>
                        | Some _ \<Rightarrow> acc)
            in case obj_get acc1 userId of
                 None \<Rightarrow> acc1
               | Some e \<Rightarrow> obj_set acc1 userId (e\<lparr> uc_count := uc_count e + 1 \<rparr>))
         activities []"



text \<open>
  Division and multiplication of numbers, rounded to the nearest double. A zero divisor
  gives \<open>NaN\<close> or an infinity in JavaScript, which is \<open>None\<close> here, so that a finite
  result is a \<open>Some\<close>.
\<close>

definition jsDiv :: "rat \<Rightarrow> rat \<Rightarrow> rat option" where
  "jsDiv a b = (if b = 0 then None else toDouble (a / b))"

definition jsTimes :: "rat option \<Rightarrow> rat \<Rightarrow> rat option" where
  "jsTimes a b = (case a of None \<Rightarrow> None | Some q \<Rightarrow> toDouble (q * b))"

record activitySummary =
  totalActivities :: nat
  successRate :: "rat option"
  failureRate :: "rat option"
  uniqueUsers :: nat

definition activitySummaryOf :: "activity list \<Rightarrow> activitySummary" where
  "activitySummaryOf activities =
    \<lparr> totalActivities = length activities,
      successRate =
        (if length activities > 0
         then jsTimes (jsDiv (of_nat (countOr0 (byStatus activities) ''SUCCESS''))
                             (of_nat (length activities))) 100
         else Some 0),
      failureRate =
        (if length activities > 0
         then jsTimes (jsDiv (of_nat (countOr0 (byStatus activities) ''FAILED''))
                             (of_nat (length activities))) 100
         else Some 0),
      uniqueUsers = length (obj_keys (userActivityCount activities)) \<rparr>"

definition getUserActivitySummary :: "activity list \<Rightarrow> activitySummary" where
  \<comment> \<open>the summary of the rows that match the filters, newest first: the query takes the
      first 1000 of them\<close>
  "getUserActivitySummary rows = activitySummaryOf (take 1000 rows)"

section \<open>Parsing integers\<close>

text \<open>
  A string is the list of the bytes of its UTF-8 encoding. \<open>whiteSpaceLength s\<close> is the
  number of bytes of the white space or line terminator that \<open>s\<close> begins with, and 0 when
  it begins with none: TAB, LF, VT, FF, CR, SP; U+00A0; U+1680; U+2000 to U+200A, U+2028,
  U+2029, U+202F; U+205F; U+3000; U+FEFF.
\<close>

definition whiteSpaceLength :: "string \<Rightarrow> nat" where
  "whiteSpaceLength s =
    (case map of_char s of
       [] \<Rightarrow> (0 :: nat)
     | (b0 :: nat) # bs \<Rightarrow>
         (if b0 \<in> {9, 10, 11, 12, 13, 32} then 1
          else case bs of
             [] \<Rightarrow> 0
           | b1 # bs' \<Rightarrow>
               (if b0 = 194 \<and> b1 = 160 then 2
                else case bs' of
                   [] \<Rightarrow> 0
                 | b2 # _ \<Rightarrow>
                     (if b0 = 225 \<and> b1 = 154 \<and> b2 = 128 then 3
                      else if b0 = 226 \<and> b1 = 128 \<and>
                              ((128 \<le> b2 \<and> b2 \<le> 138) \<or> b2 \<in> {168, 169, 175}) then 3
                      else if b0 = 226 \<and> b1 = 129 \<and> b2 = 159 then 3
                      else if b0 = 227 \<and> b1 = 128 \<and> b2 = 128 then 3
                      else if b0 = 239 \<and> b1 = 187 \<and> b2 = 191 then 3
                      else 0))))"

function skipWhiteSpace :: "string \<Rightarrow> string" where
  "skipWhiteSpace s =
    (if whiteSpaceLength s = 0 \<or> s = [] then s else skipWhiteSpace (drop (whiteSpaceLength s) s))"
  by pat_completeness auto
termination
  by (relation "measure length") auto

declare skipWhiteSpace.simps [simp del]

definition isDigit :: "char \<Rightarrow> bool" where
  "isDigit c = (48 \<le> (of_char c :: nat) \<and> (of_char c :: nat) \<le> 57)"

definition digitsValue :: "string \<Rightarrow> nat" where
  "digitsValue ds = foldl (\<lambda>n c. 10 * n + (of_char c - 48)) 0 ds"

definition parseInt :: "string \<Rightarrow> int option" where
  \<comment> \<open>\<open>parseInt(s, 10)\<close>: leading white space, an optional sign, then the longest run of
      decimal digits; \<open>NaN\<close> when there is no digit. The value is the exact integer, which
      is the result of JavaScript below \<open>2 ^ 53\<close>\<close>
  "parseInt s =
    (let s1 = skipWhiteSpace s;
         neg = (case s1 of [] \<Rightarrow> False | c # _ \<Rightarrow> c = CHR ''-'');
         s2 = (case s1 of [] \<Rightarrow> []
               | c # r \<Rightarrow> (if c = CHR ''-'' \<or> c = CHR ''+'' then r else s1));
         ds = takeWhile isDigit s2
     in if ds = [] then None
        else Some (if neg then - int (digitsValue ds) else int (digitsValue ds)))"

definition orDefault :: "string option \<Rightarrow> string \<Rightarrow> string" where
  \<comment> \<open>a destructuring default, or \<open>v ?? d\<close>: the default replaces \<open>undefined\<close> only\<close>
  "orDefault v d = (case v of None \<Rightarrow> d | Some s \<Rightarrow> s)"

definition jsOr :: "int option \<Rightarrow> int \<Rightarrow> int" where
  \<comment> \<open>\<open>n || d\<close>: \<open>NaN\<close> and \<open>0\<close> are falsy\<close>
  "jsOr n d = (case n of None \<Rightarrow> d | Some v \<Rightarrow> (if v = 0 then d else v))"

definition jsMin :: "int option \<Rightarrow> int \<Rightarrow> int option" where
  \<comment> \<open>\<open>Math.min(n, d)\<close>: \<open>NaN\<close> when an argument is \<open>NaN\<close>\<close>
  "jsMin n d = map_option (\<lambda>v. min v d) n"

definition jsLess :: "int option \<Rightarrow> int \<Rightarrow> bool" where
  \<comment> \<open>\<open>n < d\<close>: false when \<open>n\<close> is \<open>NaN\<close>\<close>
  "jsLess n d = (case n of None \<Rightarrow> False | Some v \<Rightarrow> v < d)"

function showNat :: "nat \<Rightarrow> string" where
  "showNat n = (if n < 10 then [char_of (48 + n)] else showNat (n div 10) @ [char_of (48 + n mod 10)])"
  by pat_completeness auto
termination
  by (relation "measure id") auto

declare showNat.simps [simp del]

definition showNumber :: "int option \<Rightarrow> string" where
  \<comment> \<open>an integer, or \<open>NaN\<close>, inside a template string\<close>
  "showNumber n =
    (case n of None \<Rightarrow> ''NaN''
     | Some v \<Rightarrow> (if v < 0 then ''-'' @ showNat (nat (- v)) else showNat (nat v)))"

section \<open>Pagination of the list endpoints\<close>

record assetsPaging =
  page :: int
  pageSize :: int

definition listAssets_paging :: "string option \<Rightarrow> string option \<Rightarrow> assetsPaging" where
  \<comment> \<open>\<open>req.query.page\<close> and \<open>req.query.pageSize\<close> of \<open>listAssets\<close>\<close>
  "listAssets_paging qpage qpageSize =
    \<lparr> page = max 1 (jsOr (parseInt (orDefault qpage ''1'')) 1),
      pageSize = min 100 (max 1 (jsOr (parseInt (orDefault qpageSize ''20'')) 20)) \<rparr>"

record activityPaging =
  pageNum :: "int option"
  limitNum :: "int option"
  skip :: "int option"

definition getRecentActivity_paging :: "string option \<Rightarrow> string option \<Rightarrow> activityPaging" where
  \<comment> \<open>\<open>page\<close> and \<open>limit\<close> of \<open>getRecentActivity\<close>, and the \<open>skip\<close> handed to the query\<close>
  "getRecentActivity_paging qpage qlimit =
    (let pageNum = parseInt (orDefault qpage ''1'');
         limitNum = jsMin (parseInt (orDefault qlimit ''20'')) 100
     in \<lparr> pageNum = pageNum,
          limitNum = limitNum,
          skip = (case pageNum of None \<Rightarrow> None
                  | Some p \<Rightarrow> map_option (\<lambda>l. (p - 1) * l) limitNum) \<rparr>)"

section \<open>Deleting old activity logs\<close>

text \<open>
  The time zone of the server gives the offset of local time from UTC in milliseconds,
  once for an instant (\<open>offsetAtUTC\<close>) and once for a local time value (\<open>offsetAtLocal\<close>);
  the two differ around a change of the offset. \<open>fixedZone k\<close> is a zone without changes.
  A time value beyond 8.64e15 milliseconds from the epoch is no date (\<open>TimeClip\<close>).
  \<open>getDate\<close> and \<open>getDay\<close> read the local date, \<open>toISOString\<close> (\<open>isoDate\<close>) the UTC date.
  \<open>setDate\<close> replaces the day of the month of the local date and keeps the local time
  of day: the new day number is the day number of the first of the local month plus the
  argument minus one, so a day outside the month counts on into the neighbouring months.
\<close>

record timeZone =
  offsetAtUTC :: "int \<Rightarrow> int"
  offsetAtLocal :: "int \<Rightarrow> int"

definition fixedZone :: "int \<Rightarrow> timeZone" where
  "fixedZone k = \<lparr> offsetAtUTC = (\<lambda>t. k), offsetAtLocal = (\<lambda>t. k) \<rparr>"

definition LocalTime :: "timeZone \<Rightarrow> int \<Rightarrow> int" where
  "LocalTime z t = t + offsetAtUTC z t"

definition UTC :: "timeZone \<Rightarrow> int \<Rightarrow> int" where
  "UTC z t = t - offsetAtLocal z t"

definition TimeClip :: "int \<Rightarrow> int option" where
  "TimeClip t = (if \<bar>t\<bar> \<le> 8640000000000000 then Some t else None)"

definition getDate :: "timeZone \<Rightarrow> int \<Rightarrow> int" where
  "getDate z t = DateFromTime (LocalTime z t)"

definition getDay :: "timeZone \<Rightarrow> int \<Rightarrow> int" where
  "getDay z t = WeekDay (LocalTime z t)"

definition setDateTo :: "timeZone \<Rightarrow> int \<Rightarrow> int \<Rightarrow> int option" where
  \<comment> \<open>\<open>None\<close> when the new date is out of range\<close>
  "setDateTo z t n =
    (let local = LocalTime z t;
         firstOfMonth = Day local - (DateFromTime local - 1);
         newDate = (firstOfMonth + n - 1) * msPerDay + TimeWithinDay local
     in TimeClip (UTC z newDate))"

definition setDate :: "timeZone \<Rightarrow> int \<Rightarrow> int option \<Rightarrow> int option" where
  \<comment> \<open>the argument may be \<open>NaN\<close>, which makes the date invalid\<close>
  "setDate z t dt = (case dt of None \<Rightarrow> None | Some n \<Rightarrow> setDateTo z t n)"

record activityLog =
  log_userId :: string
  log_action :: string
  log_module :: string
  log_status :: string
  log_description :: string
  log_method :: string
  log_platform :: string
  log_isAutomated :: bool
  log_createdAt :: int

datatype cleanupResponse =
    Forbidden403
  | BadRequest400
  | Success200 nat
  | Failure500

definition deleteOldLogs_cutoff ::
  "string option \<Rightarrow> string option \<Rightarrow> int \<Rightarrow> timeZone
     \<Rightarrow> cleanupResponse + (int option \<times> int option)" where
  \<comment> \<open>the handler up to the call of \<open>deleteMany\<close>: an early response, or \<open>days\<close> and
      \<open>cutoffDate\<close>\<close>
  "deleteOldLogs_cutoff userRole olderThanDays now tz =
    (if userRole \<noteq> Some ''SUPER_ADMIN'' then Inl Forbidden403
     else
       let days = parseInt (orDefault olderThanDays ''90'')
       in if jsLess days 30 then Inl BadRequest400
          else Inr (days, setDate tz now (map_option (\<lambda>d. getDate tz now - d) days)))"

definition cleanupRecord :: "string option \<Rightarrow> nat \<Rightarrow> int option \<Rightarrow> int \<Rightarrow> activityLog" where
  "cleanupRecord userId n days now =
    \<lparr> log_userId = (case userId of None \<Rightarrow> [] | Some u \<Rightarrow> u),
      log_action = ''LOGS_CLEANUP'',
      log_module = ''system'',
      log_status = ''SUCCESS'',
      log_description = ''Deleted '' @ showNat n @ '' logs older than '' @ showNumber days @ '' days'',
      log_method = ''DELETE'',
      log_platform = ''web'',
      log_isAutomated = False,
      log_createdAt = now \<rparr>"

definition deleteOldLogs ::
  "string option \<Rightarrow> string option \<Rightarrow> string option \<Rightarrow> int \<Rightarrow> timeZone \<Rightarrow> activityLog list
     \<Rightarrow> cleanupResponse \<times> activityLog list" where
  \<comment> \<open>the response and the activity log table after the call, \<open>now\<close> being a valid time
      value; an invalid cutoff date makes the query fail, which the handler answers with 500\<close>
  "deleteOldLogs userRole userId olderThanDays now tz logs =
    (case deleteOldLogs_cutoff userRole olderThanDays now tz of
       Inl r \<Rightarrow> (r, logs)
     | Inr (days, None) \<Rightarrow> (Failure500, logs)
     | Inr (days, Some cutoffDate) \<Rightarrow>
         (let kept = filter (\<lambda>l. \<not> log_createdAt l < cutoffDate) logs;
              n = length (filter (\<lambda>l. log_createdAt l < cutoffDate) logs)
          in (Success200 n, kept @ [cleanupRecord userId n days now])))"

section \<open>Comprehensive financial report\<close>

text \<open>
  The constructor \<open>new Date(s)\<close> is a parameter \<open>newDate\<close> of the model; it gives \<open>None\<close>
  for a string that is no date. A query whose filter holds an invalid date fails.
\<close>

type_synonym withdrawal = deposit

record dateFilter =
  gte :: "int option option"
  lte :: "int option option"

definition truthy :: "string option \<Rightarrow> bool" where
  "truthy v = (case v of None \<Rightarrow> False | Some s \<Rightarrow> s \<noteq> [])"

definition parseDateFilters ::
  "(string \<Rightarrow> int option) \<Rightarrow> string option \<Rightarrow> string option \<Rightarrow> dateFilter option" where
  "parseDateFilters newDate startDate endDate =
    (if \<not> truthy startDate \<and> \<not> truthy endDate then None
     else Some \<lparr> gte = (if truthy startDate then map_option newDate startDate else None),
                 lte = (if truthy endDate then map_option newDate endDate else None) \<rparr>)"

record createdAtWhere =
  where_gte :: "int option option"
  where_lte :: "int option option"
  where_lt :: "int option option"

definition validWhere :: "createdAtWhere \<Rightarrow> bool" where
  "validWhere w = (where_gte w \<noteq> Some None \<and> where_lte w \<noteq> Some None \<and> where_lt w \<noteq> Some None)"

definition matchesWhere :: "createdAtWhere \<Rightarrow> int \<Rightarrow> bool" where
  \<comment> \<open>an absent bound does not constrain\<close>
  "matchesWhere w t =
    ((case where_gte w of Some (Some b) \<Rightarrow> b \<le> t | _ \<Rightarrow> True) \<and>
     (case where_lte w of Some (Some b) \<Rightarrow> t \<le> b | _ \<Rightarrow> True) \<and>
     (case where_lt w of Some (Some b) \<Rightarrow> t < b | _ \<Rightarrow> True))"

definition findMany :: "dateFilter option \<Rightarrow> deposit list \<Rightarrow> deposit list option" where
  \<comment> \<open>\<open>findMany({ where: dateFilter ? { createdAt: dateFilter } : {} })\<close>; \<open>None\<close> when the
      query fails\<close>
  "findMany dateFilter rows =
    (case dateFilter of
       None \<Rightarrow> Some rows
     | Some f \<Rightarrow>
         (let w = \<lparr> where_gte = gte f, where_lte = lte f, where_lt = None \<rparr>
          in if validWhere w then Some (filter (\<lambda>d. matchesWhere w (createdAt d)) rows)
             else None))"

definition previousPeriodWhere :: "dateFilter \<Rightarrow> createdAtWhere option" where
  \<comment> \<open>the \<open>createdAt\<close> filter of the two previous-period queries; \<open>None\<close> when reading
      \<open>dateFilter.lte!.getTime()\<close> raises a \<open>TypeError\<close>\<close>
  "previousPeriodWhere f =
    (case gte f of
       None \<Rightarrow> Some \<lparr> where_gte = None, where_lte = None, where_lt = None \<rparr>
     | Some g \<Rightarrow>
         (case lte f of
            None \<Rightarrow> None
          | Some l \<Rightarrow>
              Some \<lparr> where_gte =
                       Some (case (g, l) of
                               (Some gt, Some lt) \<Rightarrow> Some (gt - (lt - gt))
                             | _ \<Rightarrow> None),
                     where_lte = None,
                     where_lt = Some g \<rparr>))"

definition aggregateApproved :: "createdAtWhere \<Rightarrow> deposit list \<Rightarrow> rat option" where
  \<comment> \<open>\<open>aggregate({ _sum: { amount: true }, where: ... })._sum.amount || 0\<close>\<close>
  "aggregateApproved w rows =
    (if validWhere w
     then Some (sumAmount (filter (\<lambda>d. transactionStatus d = ''APPROVED'' \<and>
                                         matchesWhere w (createdAt d)) rows))
     else None)"

record growth =
  depositGrowth :: "rat option"
  withdrawalGrowth :: "rat option"

definition growthRate :: "rat \<Rightarrow> rat \<Rightarrow> rat option" where
  \<comment> \<open>\<open>previous > 0 ? ((current - previous) / previous) * 100 : null\<close>\<close>
  "growthRate current previous =
    (if previous > 0 then Some (((current - previous) / previous) * 100) else None)"

record financialReport =
  fr_totalDeposits :: rat
  fr_approvedDeposits :: rat
  fr_totalWithdrawals :: rat
  fr_approvedWithdrawals :: rat
  fr_netCashFlow :: rat
  fr_netCashFlowStatus :: string
  growthMetrics :: "growth option"

datatype reportError = ReportFailed500

definition getComprehensiveFinancialReport ::
  "(string \<Rightarrow> int option) \<Rightarrow> string option \<Rightarrow> string option \<Rightarrow> deposit list \<Rightarrow> withdrawal list
     \<Rightarrow> reportError + financialReport" where
  "getComprehensiveFinancialReport newDate startDate endDate depositRows withdrawalRows =
    (let dateFilter = parseDateFilters newDate startDate endDate
     in case (findMany dateFilter depositRows, findMany dateFilter withdrawalRows) of
          (Some deposits, Some withdrawals) \<Rightarrow>
            (let totalDeposits = sumAmount deposits;
                 totalApprovedDeposits = sumAmount (withStatus ''APPROVED'' deposits);
                 totalWithdrawals = sumAmount withdrawals;
                 totalApprovedWithdrawals = sumAmount (withStatus ''APPROVED'' withdrawals);
                 netCashFlow = totalApprovedDeposits - totalApprovedWithdrawals;
                 report = (\<lambda>g. \<lparr> fr_totalDeposits = totalDeposits,
                                  fr_approvedDeposits = totalApprovedDeposits,
                                  fr_totalWithdrawals = totalWithdrawals,
                                  fr_approvedWithdrawals = totalApprovedWithdrawals,
                                  fr_netCashFlow = netCashFlow,
                                  fr_netCashFlowStatus =
                                    (if netCashFlow \<ge> 0 then ''POSITIVE'' else ''NEGATIVE''),
                                  growthMetrics = g \<rparr>)
             in case dateFilter of
                  None \<Rightarrow> Inr (report None)
                | Some f \<Rightarrow>
                    (case previousPeriodWhere f of
                       None \<Rightarrow> Inl ReportFailed500
                     | Some w \<Rightarrow>
                         (case (aggregateApproved w depositRows,
                                aggregateApproved w withdrawalRows) of
                            (Some previousDeposits, Some previousWithdrawals) \<Rightarrow>
                              Inr (report (Some
                                \<lparr> depositGrowth =
                                    growthRate totalApprovedDeposits previousDeposits,
                                  withdrawalGrowth =
                                    growthRate totalApprovedWithdrawals previousWithdrawals \<rparr>))
                          | _ \<Rightarrow> Inl ReportFailed500)))
        | _ \<Rightarrow> Inl ReportFailed500)"

section \<open>Transaction trends report\<close>

definition padStart2 :: "string \<Rightarrow> string" where
  \<comment> \<open>\<open>s.padStart(2, "0")\<close>\<close>
  "padStart2 s = replicate (2 - length s) (CHR ''0'') @ s"

definition getGroupKey :: "timeZone \<Rightarrow> string \<Rightarrow> int \<Rightarrow> string option" where
  \<comment> \<open>\<open>None\<close> when \<open>toISOString\<close> raises a \<open>RangeError\<close> on an invalid date\<close>
  "getGroupKey z period date =
    (if period = ''weekly''
     then (case setDateTo z date (getDate z date - getDay z date) of
             None \<Rightarrow> None
           | Some startOfWeek \<Rightarrow> Some (isoDate startOfWeek))
     else if period = ''monthly''
     then Some (showNumber (Some (YearFromTime (LocalTime z date))) @ ''-'' @
                padStart2 (showNumber (Some (MonthFromTime (LocalTime z date) + 1))))
     else Some (isoDate date))"

record trend =
  t_date :: string
  t_deposits :: rat
  t_withdrawals :: rat
  t_netFlow :: rat
  depositCount :: nat
  withdrawalCount :: nat

definition trendFor :: "trend jsobj \<Rightarrow> string \<Rightarrow> trend jsobj" where
  \<comment> \<open>\<open>if (!trends[key]) trends[key] = { date: key, deposits: 0, ... }\<close>\<close>
  "trendFor trends key =
    (case obj_get trends key of
       None \<Rightarrow> obj_set trends key
                 \<lparr> t_date = key, t_deposits = 0, t_withdrawals = 0, t_netFlow = 0,
                   depositCount = 0, withdrawalCount = 0 \<rparr>
     | Some _ \<Rightarrow> trends)"

definition addDeposit :: "string \<Rightarrow> rat \<Rightarrow> trend jsobj \<Rightarrow> trend jsobj" where
  "addDeposit key a trends =
    (let trends1 = trendFor trends key
     in case obj_get trends1 key of
          None \<Rightarrow> trends1
        | Some t \<Rightarrow> obj_set trends1 key
                     (t\<lparr> t_deposits := t_deposits t + a, depositCount := depositCount t + 1 \<rparr>))"

definition addWithdrawal :: "string \<Rightarrow> rat \<Rightarrow> trend jsobj \<Rightarrow> trend jsobj" where
  "addWithdrawal key a trends =
    (let trends1 = trendFor trends key
     in case obj_get trends1 key of
          None \<Rightarrow> trends1
        | Some t \<Rightarrow> obj_set trends1 key
                     (t\<lparr> t_withdrawals := t_withdrawals t + a,
                        withdrawalCount := withdrawalCount t + 1 \<rparr>))"

definition trendBuckets ::
  "timeZone \<Rightarrow> string \<Rightarrow> deposit list \<Rightarrow> withdrawal list \<Rightarrow> trend list option" where
  \<comment> \<open>the buckets of \<open>getTransactionTrendsReport\<close> with their net flow, in the order of
      \<open>Object.values(trends)\<close>, before they are sorted by date; \<open>None\<close> when a key raises,
      which the handler answers with 500\<close>
  "trendBuckets z period deposits withdrawals =
    (let trends0 = fold (\<lambda>d trends.
                           case trends of
                             None \<Rightarrow> None
                           | Some ts \<Rightarrow>
                               map_option (\<lambda>key. addDeposit key (amount d) ts)
                                 (getGroupKey z period (createdAt d)))
                        deposits (Some []);
         trends1 = fold (\<lambda>w trends.
                           case trends of
                             None \<Rightarrow> None
                           | Some ts \<Rightarrow>
                               map_option (\<lambda>key. addWithdrawal key (amount w) ts)
                                 (getGroupKey z period (createdAt w)))
                        withdrawals trends0
     in map_option
          (\<lambda>ts. map (\<lambda>t. t\<lparr> t_netFlow := t_deposits t - t_withdrawals t \<rparr>) (obj_values ts))
          trends1)"

section \<open>Portfolio assets\<close>

text \<open>
  A field of a JSON request body. \<open>JNonFinite\<close> is a number that is not finite. The
  conversion of a string to a number is a parameter \<open>strToNum\<close> of the model, with
  \<open>None\<close> for a string that converts to no finite number.
\<close>

datatype jsval = Undefined | Null | JBool bool | JNum rat | JNonFinite | JStr string

definition Number :: "(string \<Rightarrow> rat option) \<Rightarrow> jsval \<Rightarrow> rat option" where
  \<comment> \<open>\<open>Number(v)\<close> when it is finite\<close>
  "Number strToNum v =
    (case v of
       Undefined \<Rightarrow> None
     | Null \<Rightarrow> Some 0
     | JBool b \<Rightarrow> Some (if b then 1 else 0)
     | JNum r \<Rightarrow> Some r
     | JNonFinite \<Rightarrow> None
     | JStr s \<Rightarrow> strToNum s)"

definition toNum :: "(string \<Rightarrow> rat option) \<Rightarrow> jsval \<Rightarrow> rat \<Rightarrow> rat" where
  \<comment> \<open>\<open>const n = Number(v); return Number.isFinite(n) ? n : def\<close>\<close>
  "toNum strToNum v def = (case Number strToNum v of Some n \<Rightarrow> n | None \<Rightarrow> def)"

definition calcLossGain :: "rat \<Rightarrow> rat \<Rightarrow> rat \<Rightarrow> rat" where
  "calcLossGain costPrice closeValue stock = (closeValue - costPrice) * stock"

record portfolioAsset =
  pa_id :: string
  portfolioId :: string
  assetId :: string
  stock :: rat
  costPrice :: rat
  closeValue :: rat
  lossGain :: rat

record asset =
  asset_id :: string
  closePrice :: rat

record database =
  portfolios :: "string list"
  assets :: "asset list"
  portfolioAssets :: "portfolioAsset list"

record assetBody =
  b_portfolioId :: "string option"
  b_assetId :: "string option"
  b_stock :: jsval
  b_costPrice :: jsval
  b_closeValue :: jsval

datatype assetResponse =
    Created201 portfolioAsset
  | Ok200 portfolioAsset
  | Error400
  | Error404
  | Error409

definition findAsset :: "database \<Rightarrow> string \<Rightarrow> asset option" where
  "findAsset db i = find (\<lambda>a. asset_id a = i) (assets db)"

definition findPortfolioAsset :: "database \<Rightarrow> string \<Rightarrow> portfolioAsset option" where
  "findPortfolioAsset db i = find (\<lambda>r. pa_id r = i) (portfolioAssets db)"

definition createPortfolioAsset ::
  "(string \<Rightarrow> rat option) \<Rightarrow> string \<Rightarrow> assetBody \<Rightarrow> database \<Rightarrow> assetResponse \<times> database" where
  \<comment> \<open>\<open>newId\<close> is the identifier that the database gives the new row\<close>
  "createPortfolioAsset strToNum newId body db =
    (case (b_portfolioId body, b_assetId body) of
       (Some pid, Some aid) \<Rightarrow>
         (if pid = [] \<or> aid = [] then (Error400, db)
          else
            let stock = toNum strToNum (b_stock body) 0;
                costPrice = toNum strToNum (b_costPrice body) 0;
                closeValue0 =
                  (if b_closeValue body = Undefined \<or> b_closeValue body = Null \<or>
                      b_closeValue body = JStr []
                   then map_option (\<lambda>a. JNum (closePrice a)) (findAsset db aid)
                   else Some (b_closeValue body))
            in case closeValue0 of
                 None \<Rightarrow> (Error404, db)
               | Some cv \<Rightarrow>
                   (let closeValue = toNum strToNum cv 0
                    in if pid \<notin> set (portfolios db) then (Error404, db)
                       else if findAsset db aid = None then (Error404, db)
                       else
                         let lossGain = calcLossGain costPrice closeValue stock;
                             row = \<lparr> pa_id = newId, portfolioId = pid, assetId = aid,
                                     stock = stock, costPrice = costPrice,
                                     closeValue = closeValue, lossGain = lossGain \<rparr>
                         in if \<exists>r \<in> set (portfolioAssets db).
                                 portfolioId r = pid \<and> assetId r = aid
                            then (Error409, db)
                            else (Created201 row,
                                  db\<lparr> portfolioAssets := portfolioAssets db @ [row] \<rparr>)))
     | _ \<Rightarrow> (Error400, db))"

definition updatePortfolioAsset ::
  "(string \<Rightarrow> rat option) \<Rightarrow> string \<Rightarrow> assetBody \<Rightarrow> database \<Rightarrow> assetResponse \<times> database" where
  "updatePortfolioAsset strToNum i body db =
    (case findPortfolioAsset db i of
       None \<Rightarrow> (Error404, db)
     | Some current \<Rightarrow>
         (let stock = (if b_stock body \<noteq> Undefined
                       then toNum strToNum (b_stock body) (stock current) else stock current);
              costPrice = (if b_costPrice body \<noteq> Undefined
                           then toNum strToNum (b_costPrice body) (costPrice current)
                           else costPrice current);
              closeValue = (if b_closeValue body \<noteq> Undefined
                            then toNum strToNum (b_closeValue body) (closeValue current)
                            else closeValue current);
              lossGain = calcLossGain costPrice closeValue stock;
              updated = current\<lparr> stock := stock, costPrice := costPrice,
                                 closeValue := closeValue, lossGain := lossGain \<rparr>
          in (Ok200 updated,
              db\<lparr> portfolioAssets :=
                    map (\<lambda>r. if pa_id r = i then updated else r) (portfolioAssets db) \<rparr>)))"

section \<open>Sample data\<close>







definition oldLog :: activityLog where
  "oldLog = \<lparr> log_userId = ''u7'', log_action = ''LOGIN'', log_module = ''auth'',
              log_status = ''SUCCESS'', log_description = ''signed in'', log_method = ''POST'',
              log_platform = ''web'', log_isAutomated = False,
              log_createdAt = 1701903600000 \<rparr>"

definition recentLog :: activityLog where
  "recentLog = \<lparr> log_userId = ''u7'', log_action = ''LOGOUT'', log_module = ''auth'',
                 log_status = ''SUCCESS'', log_description = ''signed out'', log_method = ''POST'',
                 log_platform = ''web'', log_isAutomated = False,
                 log_createdAt = 1702076400000 \<rparr>"

definition sampleNewDate :: "string \<Rightarrow> int option" where
  "sampleNewDate s =
    (if s = ''2024-01-01'' then Some 1704067200000
     else if s = ''2024-01-31'' then Some 1706659200000
     else None)"

definition sampleDeposit :: deposit where
  "sampleDeposit = \<lparr> amount = 100, transactionStatus = ''APPROVED'', payMethod = None,
                      createdAt = 1704067200000 \<rparr>"

definition tuesdayEarly :: deposit where
  "tuesdayEarly = \<lparr> amount = 100, transactionStatus = ''APPROVED'', payMethod = None,
                     createdAt = 1704751200000 \<rparr>"

definition tuesdayNoon :: deposit where
  "tuesdayNoon = \<lparr> amount = 50, transactionStatus = ''APPROVED'', payMethod = None,
                    createdAt = 1704790800000 \<rparr>"

definition sampleDb :: database where
  "sampleDb = \<lparr> portfolios = [''p1''],
                 assets = [\<lparr> asset_id = ''a1'', closePrice = 12 \<rparr>],
                 portfolioAssets = [] \<rparr>"

definition sampleRow :: portfolioAsset where
  "sampleRow = \<lparr> pa_id = ''n1'', portfolioId = ''p1'', assetId = ''a1'', stock = 10,
                  costPrice = 7, closeValue = 12, lossGain = 50 \<rparr>"

definition createBody :: assetBody where
  "createBody = \<lparr> b_portfolioId = Some ''p1'', b_assetId = Some ''a1'', b_stock = JNum 10,
                   b_costPrice = JNum 7, b_closeValue = Undefined \<rparr>"

definition stockOnlyBody :: assetBody where
  "stockOnlyBody = \<lparr> b_portfolioId = None, b_assetId = None, b_stock = JNum 3,
                      b_costPrice = Undefined, b_closeValue = Undefined \<rparr>"

definition updatedRow :: portfolioAsset where
  "updatedRow = \<lparr> pa_id = ''n1'', portfolioId = ''p1'', assetId = ''a1'', stock = 3,
                   costPrice = 7, closeValue = 12, lossGain = 15 \<rparr>"

definition tenth :: rat where
  "tenth = 3602879701896397 / 36028797018963968"

definition fourTenths :: rat where
  "fourTenths = 3602879701896397 / 9007199254740992"


definition successActivity :: activity where
  "successActivity = \<lparr> a_userId = ''u1'', a_user = ''ann'', a_action = ''LOGIN'',
                          a_status = Some ''SUCCESS'', a_durationMs = None, a_createdAt = 0 \<rparr>"

definition failedActivity :: activity where
  "failedActivity = \<lparr> a_userId = ''u2'', a_user = ''bob'', a_action = ''LOGIN'',
                         a_status = Some ''FAILED'', a_durationMs = None, a_createdAt = 0 \<rparr>"

definition elevenActivities :: "activity list" where
  "elevenActivities = replicate 2 successActivity @ replicate 9 failedActivity"

section \<open>Properties of the rounding\<close>

lemma bitLength_upper: "n < 2 ^ bitLength n"
proof (induction n rule: bitLength.induct)
  case (1 n)
  show ?case
  proof (cases "n \<le> 0")
    case True
    have "(0::int) < 2 ^ bitLength n" by simp
    with True show ?thesis by linarith
  next
    case False
    then have "n div 2 < 2 ^ bitLength (n div 2)" using 1 by simp
    then have "n < 2 * 2 ^ bitLength (n div 2)" by linarith
    then show ?thesis using False by (simp add: bitLength.simps [of n])
  qed
qed

lemma bitLength_lower: "0 < n \<Longrightarrow> 2 ^ (bitLength n - 1) \<le> n"
proof (induction n rule: bitLength.induct)
  case (1 n)
  then have pos: "0 < n" by simp
  show ?case
  proof (cases "n div 2 \<le> 0")
    case True
    then have "bitLength (n div 2) = 0" by (simp add: bitLength.simps [of "n div 2"])
    then show ?thesis using pos by (simp add: bitLength.simps [of n])
  next
    case False
    then have ih: "2 ^ (bitLength (n div 2) - 1) \<le> n div 2" using 1 pos by simp
    from False have b: "bitLength (n div 2) = Suc (bitLength (n div 2) - 1)"
      by (simp add: bitLength.simps [of "n div 2"])
    have "(2::int) ^ bitLength (n div 2) = 2 * 2 ^ (bitLength (n div 2) - 1)"
      by (subst b) simp
    also have "\<dots> \<le> 2 * (n div 2)" using ih by simp
    also have "\<dots> \<le> n" by linarith
    finally show ?thesis using pos by (simp add: bitLength.simps [of n])
  qed
qed

lemma bitLength_pos: "0 < n \<Longrightarrow> 0 < bitLength n"
  by (simp add: bitLength.simps [of n])

lemma pow2_powi: "pow2 k = 2 powi k"
  by (simp add: pow2_def power_int_def power_one_over inverse_eq_divide)

lemma pow2_pos [simp]: "0 < pow2 k"
  by (simp add: pow2_powi zero_less_power_int)

lemma pow2_nonneg [simp]: "0 \<le> pow2 k"
  using pow2_pos [of k] by linarith

lemma pow2_nonzero [simp]: "pow2 k \<noteq> 0"
  using pow2_pos [of k] by linarith

lemma pow2_add: "pow2 (a + b) = pow2 a * pow2 b"
  by (simp add: pow2_powi power_int_add)

lemma pow2_minus: "pow2 (- a) = 1 / pow2 a"
  by (simp add: pow2_powi power_int_minus_divide)

lemma pow2_mono: "a \<le> b \<Longrightarrow> pow2 a \<le> pow2 b"
  by (simp add: pow2_powi power_int_increasing)

lemma pow2_strict_mono: "a < b \<Longrightarrow> pow2 a < pow2 b"
  by (simp add: pow2_powi power_int_strict_increasing)

lemma pow2_less_iff: "pow2 a < pow2 b \<longleftrightarrow> a < b"
  by (metis pow2_strict_mono pow2_mono linorder_not_less)

lemma pow2_nat: "pow2 (int n) = 2 ^ n"
  by (simp add: pow2_def)

lemma ilog2_ge1:
  assumes "1 \<le> x"
  shows "pow2 (int (bitLength \<lfloor>x\<rfloor>) - 1) \<le> x \<and> x < pow2 (int (bitLength \<lfloor>x\<rfloor>))"
proof -
  let ?k = "\<lfloor>x\<rfloor>"
  have k: "0 < ?k" using assms by simp
  have b: "0 < bitLength ?k" using k by (rule bitLength_pos)
  have "(2::int) ^ (bitLength ?k - 1) \<le> ?k" using k by (rule bitLength_lower)
  then have "(of_int (2 ^ (bitLength ?k - 1)) :: rat) \<le> of_int ?k"
    by (simp only: of_int_le_iff)
  also have "\<dots> \<le> x" by simp
  finally have lo: "(2::rat) ^ (bitLength ?k - 1) \<le> x" by simp
  have "int (bitLength ?k) - 1 = int (bitLength ?k - 1)" using b by simp
  then have e: "pow2 (int (bitLength ?k) - 1) = 2 ^ (bitLength ?k - 1)"
    by (simp only: pow2_nat)
  have "?k + 1 \<le> 2 ^ bitLength ?k" using bitLength_upper [of ?k] by simp
  then have "(of_int (?k + 1) :: rat) \<le> of_int (2 ^ bitLength ?k)"
    by (simp only: of_int_le_iff)
  moreover have "x < of_int (?k + 1)" by linarith
  ultimately have hi: "x < 2 ^ bitLength ?k" by simp
  show ?thesis using lo hi e by (simp add: pow2_nat)
qed

lemma ilog2_bounds:
  assumes "0 < x"
  shows "pow2 (ilog2 x) \<le> x \<and> x < pow2 (ilog2 x + 1)"
proof (cases "1 \<le> x")
  case True
  then show ?thesis using ilog2_ge1 [OF True] by (simp add: ilog2_def)
next
  case False
  define y where "y = 1 / x"
  define c where "c = int (bitLength \<lfloor>y\<rfloor>) - 1"
  have y1: "1 \<le> y" using False assms by (simp add: y_def)
  have x: "x = 1 / y" by (simp add: y_def)
  have yb: "pow2 c \<le> y" "y < pow2 (c + 1)"
    using ilog2_ge1 [OF y1] by (simp_all add: c_def)
  have ypos: "0 < y" using y1 by simp
  show ?thesis
  proof (cases "y = pow2 c")
    case True
    then have l: "ilog2 x = - c" using False by (simp add: ilog2_def Let_def y_def c_def)
    have "x = pow2 (- c)" using True by (simp add: x pow2_minus)
    then show ?thesis using l pow2_strict_mono [of "- c" "- c + 1"] by simp
  next
    case ne: False
    then have l: "ilog2 x = - c - 1" using False by (simp add: ilog2_def Let_def y_def c_def)
    have lt: "pow2 c < y" using ne yb(1) by simp
    have "x < 1 / pow2 c" unfolding x using lt by (simp add: frac_less2)
    then have hi: "x < pow2 (- c)" by (simp add: pow2_minus)
    have "1 / pow2 (c + 1) < x" unfolding x using yb(2) ypos by (simp add: frac_less2)
    then have lo: "pow2 (- c - 1) < x" using pow2_minus [of "c + 1"] by simp
    show ?thesis using l lo hi by simp
  qed
qed

lemma roundHalfEven_error: "\<bar>of_int (roundHalfEven q) - q\<bar> \<le> 1 / 2"
proof -
  define r where "r = q - of_int \<lfloor>q\<rfloor>"
  have r: "0 \<le> r" "r < 1" unfolding r_def by linarith+
  have q: "q = of_int \<lfloor>q\<rfloor> + r" by (simp add: r_def)
  have d: "roundHalfEven q =
      (if r < 1 / 2 then \<lfloor>q\<rfloor> else if 1 / 2 < r then \<lfloor>q\<rfloor> + 1
       else if even \<lfloor>q\<rfloor> then \<lfloor>q\<rfloor> else \<lfloor>q\<rfloor> + 1)"
    unfolding roundHalfEven_def Let_def r_def ..
  consider "r < 1 / 2" | "1 / 2 < r" | "r = 1 / 2" by linarith
  then show ?thesis
  proof cases
    case 1
    then have "roundHalfEven q = \<lfloor>q\<rfloor>" unfolding d by simp
    then show ?thesis using 1 r by (subst (2) q) simp
  next
    case 2
    then have "roundHalfEven q = \<lfloor>q\<rfloor> + 1" unfolding d by simp
    then show ?thesis using 2 r by (subst (2) q) simp
  next
    case 3
    then have "roundHalfEven q = \<lfloor>q\<rfloor> \<or> roundHalfEven q = \<lfloor>q\<rfloor> + 1"
      unfolding d by simp
    then show ?thesis
    proof
      assume "roundHalfEven q = \<lfloor>q\<rfloor>"
      then show ?thesis using 3 by (subst (2) q) simp
    next
      assume "roundHalfEven q = \<lfloor>q\<rfloor> + 1"
      then show ?thesis using 3 by (subst (2) q) simp
    qed
  qed
qed


lemma roundHalfEven_nonneg: "0 \<le> q \<Longrightarrow> 0 \<le> roundHalfEven q"
  by (auto simp: roundHalfEven_def Let_def)

lemma fl_zero [simp]: "fl 0 = 0"
  by (simp add: fl_def)

lemma fl_nonneg: "0 \<le> x \<Longrightarrow> 0 \<le> fl x"
proof (cases "x = 0")
  case True
  then show ?thesis by simp
next
  case False
  assume "0 \<le> x"
  with False have x: "0 < x" by simp
  define e where "e = max (ilog2 \<bar>x\<bar> - 52) (- 1074)"
  have "0 \<le> \<bar>x\<bar> / pow2 e" by simp
  then have "0 \<le> roundHalfEven (\<bar>x\<bar> / pow2 e)" by (rule roundHalfEven_nonneg)
  then have "0 \<le> (of_int (roundHalfEven (\<bar>x\<bar> / pow2 e)) :: rat) * pow2 e" by simp
  then show ?thesis using x by (simp add: fl_def Let_def e_def)
qed

lemma fl_error_normal:
  assumes "pow2 (- 1022) \<le> x"
  shows "\<bar>fl x - x\<bar> \<le> x / 2 ^ 53"
proof -
  have x: "0 < x" using assms pow2_pos [of "- 1022"] by linarith
  define lg where "lg = ilog2 x"
  have b: "pow2 lg \<le> x" "x < pow2 (lg + 1)"
    using ilog2_bounds [OF x] by (simp_all add: lg_def)
  have "pow2 (- 1022) < pow2 (lg + 1)" using assms b(2) by linarith
  then have "- 1022 < lg + 1" by (simp only: pow2_less_iff)
  then have e: "max (lg - 52) (- 1074) = lg - 52" by simp
  define m where "m = x / pow2 (lg - 52)"
  have f: "fl x = of_int (roundHalfEven m) * pow2 (lg - 52)"
    using x e by (simp add: fl_def Let_def lg_def [symmetric] m_def)
  have xm: "x = m * pow2 (lg - 52)" by (simp add: m_def)
  have "fl x - x = (of_int (roundHalfEven m) - m) * pow2 (lg - 52)"
    unfolding f by (simp add: left_diff_distrib m_def)
  then have "\<bar>fl x - x\<bar> = \<bar>of_int (roundHalfEven m) - m\<bar> * pow2 (lg - 52)"
    by (simp add: abs_mult)
  also have "\<dots> \<le> (1 / 2) * pow2 (lg - 52)"
    by (rule mult_right_mono [OF roundHalfEven_error]) simp
  also have "pow2 (lg - 52) = pow2 lg * pow2 (- 52)"
    using pow2_add [of lg "- 52"] by simp
  also have "pow2 (- 52) = 1 / 2 ^ 52" by (simp add: pow2_def)
  also have "1 / 2 * (pow2 lg * (1 / 2 ^ 52)) = pow2 lg / 2 ^ 53" by simp
  also have "\<dots> \<le> x / 2 ^ 53" using b(1) by (simp add: divide_right_mono)
  finally show ?thesis .
qed




lemma ilog2_unique:
  assumes "0 < x" "pow2 lg \<le> x" "x < pow2 (lg + 1)"
  shows "ilog2 x = lg"
proof -
  have b: "pow2 (ilog2 x) \<le> x" "x < pow2 (ilog2 x + 1)"
    using ilog2_bounds [OF assms(1)] by simp_all
  have "pow2 (ilog2 x) < pow2 (lg + 1)" using b(1) assms(3) by linarith
  then have 1: "ilog2 x < lg + 1" by (simp only: pow2_less_iff)
  have "pow2 lg < pow2 (ilog2 x + 1)" using b(2) assms(2) by linarith
  then have 2: "lg < ilog2 x + 1" by (simp only: pow2_less_iff)
  from 1 2 show ?thesis by simp
qed

lemma roundHalfEven_near:
  assumes "\<bar>of_int n - q\<bar> < 1 / 2"
  shows "roundHalfEven q = n"
proof -
  have "\<bar>(of_int n :: rat) - of_int (roundHalfEven q)\<bar> < 1"
    using assms roundHalfEven_error [of q] by linarith
  then have "\<bar>(of_int (n - roundHalfEven q) :: rat)\<bar> < 1" by simp
  then have "(of_int \<bar>n - roundHalfEven q\<bar> :: rat) < of_int 1" by simp
  then have "\<bar>n - roundHalfEven q\<bar> < 1" by (simp only: of_int_less_iff)
  then show ?thesis by simp
qed


lemma pow2_split: "pow2 (lg + 1) = pow2 53 * pow2 (lg - 52)"
proof -
  have "lg + 1 = 53 + (lg - 52)" by arith
  then have "pow2 (lg + 1) = pow2 (53 + (lg - 52))" by (rule arg_cong)
  then show ?thesis by (simp only: pow2_add)
qed

lemma toDouble_cert:
  assumes "0 < x" "pow2 lg \<le> x" "x < pow2 (lg + 1)" "- 1022 \<le> lg" "lg \<le> 1022"
    and "roundHalfEven (x / pow2 (lg - 52)) = n"
  shows "toDouble x = Some (of_int n * pow2 (lg - 52))"
proof -
  have l: "ilog2 x = lg" using assms(1-3) by (rule ilog2_unique)
  have e: "max (lg - 52) (- 1074) = lg - 52" using assms(4) by simp
  have f: "fl x = of_int n * pow2 (lg - 52)"
    using assms(1,6) by (simp add: fl_def Let_def l e)
  have "x / pow2 (lg - 52) < pow2 (lg + 1) / pow2 (lg - 52)"
    using assms(3) by (simp add: divide_strict_right_mono)
  also have "pow2 (lg + 1) = pow2 53 * pow2 (lg - 52)"
    by (rule pow2_split)
  finally have m: "x / pow2 (lg - 52) < pow2 53" by simp
  have "\<bar>of_int n - x / pow2 (lg - 52)\<bar> \<le> 1 / 2"
    using roundHalfEven_error [of "x / pow2 (lg - 52)"] by (simp only: assms(6))
  then have "of_int n - x / pow2 (lg - 52) \<le> 1 / 2" by linarith
  then have "(of_int n :: rat) < pow2 53 + 1" using m by linarith
  then have "(of_int n :: rat) < of_int (2 ^ 53 + 1)" by (simp add: pow2_def)
  then have "n < 2 ^ 53 + 1" by (simp only: of_int_less_iff)
  then have "(of_int n :: rat) \<le> of_int (2 ^ 53)" by (simp only: of_int_le_iff)
  then have "(of_int n :: rat) \<le> pow2 53" by (simp add: pow2_def)
  then have "of_int n * pow2 (lg - 52) \<le> pow2 53 * pow2 (lg - 52)"
    by (rule mult_right_mono) simp
  also have "\<dots> = pow2 (lg + 1)" by (rule pow2_split [symmetric])
  also have "\<dots> < pow2 1024" by (rule pow2_strict_mono) (use assms(5) in simp)
  finally have u: "of_int n * pow2 (lg - 52) < pow2 1024" .
  have "0 \<le> fl x" using assms(1) by (intro fl_nonneg) simp
  then show ?thesis using u by (simp add: toDouble_def f)
qed

section \<open>Properties of the deposits report\<close>

lemma obj_values_Nil [simp]: "obj_values [] = []"
  by (simp add: obj_values_def)


lemma obj_get_set: "obj_get (obj_set acc k v) k' = (if k' = k then Some v else obj_get acc k')"
  by (induction acc) auto










lemma fraction_doubles:
  "toDouble (1 / 10) = Some tenth" "toDouble (4 / 10) = Some fourTenths"
proof -
  have "toDouble (1 / 10) = Some (of_int 7205759403792794 * pow2 (- 4 - 52))"
    by (rule toDouble_cert [OF _ _ _ _ _ roundHalfEven_near]) (simp_all add: pow2_def)
  then show "toDouble (1 / 10) = Some tenth" by (simp add: pow2_def tenth_def)
  have "toDouble (4 / 10) = Some (of_int 7205759403792794 * pow2 (- 2 - 52))"
    by (rule toDouble_cert [OF _ _ _ _ _ roundHalfEven_near]) (simp_all add: pow2_def)
  then show "toDouble (4 / 10) = Some fourTenths" by (simp add: pow2_def fourTenths_def)
qed




text \<open>
  C2, as the code computes it. For the deposits 1000 (APPROVED), 500 (PENDING) and 200
  (REJECTED) the summary has totalAmount 1700, approved.amount 1000, pending.amount 500
  and rejected.amount 200, and averageDeposit is the unrounded quotient 1700 / 3.
\<close>

theorem scenario_summary:
  "totalAmount (summary (getDepositsReport scenarioDeposits)) = 1700 \<and>
   st_amount (approved (summary (getDepositsReport scenarioDeposits))) = 1000 \<and>
   st_amount (pending (summary (getDepositsReport scenarioDeposits))) = 500 \<and>
   st_amount (rejected (summary (getDepositsReport scenarioDeposits))) = 200 \<and>
   averageDeposit (summary (getDepositsReport scenarioDeposits)) = 1700 / 3"
  by (simp add: getDepositsReport_def depositsSummaryOf_def scenarioDeposits_def
      sumAmount_def withStatus_def)

text \<open>
  C2, as stated: the average of the scenario is not 566.67, since the quotient is not
  rounded to two decimals.
\<close>

theorem scenario_average_not_rounded:
  "\<not> (totalAmount (summary (getDepositsReport scenarioDeposits)) = 1700 \<and>
      st_amount (approved (summary (getDepositsReport scenarioDeposits))) = 1000 \<and>
      st_amount (pending (summary (getDepositsReport scenarioDeposits))) = 500 \<and>
      st_amount (rejected (summary (getDepositsReport scenarioDeposits))) = 200 \<and>
      averageDeposit (summary (getDepositsReport scenarioDeposits)) = 56667 / 100)"
  by (simp add: getDepositsReport_def depositsSummaryOf_def scenarioDeposits_def
      sumAmount_def withStatus_def)

section \<open>Properties of the rankings\<close>

lemma insertBy_desc:
  fixes m :: "'a \<Rightarrow> 'k::linordered_idom"
  shows "insertBy (\<lambda>a b. m b - m a) x ys = insort_key (\<lambda>v. - m v) x ys"
  by (induction ys) auto

lemma js_sort_desc:
  fixes m :: "'a \<Rightarrow> 'k::linordered_idom"
  shows "js_sort (\<lambda>a b. m b - m a) xs = sort_key (\<lambda>v. - m v) xs"
  by (induction xs) (simp_all add: js_sort_def insertBy_desc)



lemma js_sort_mset:
  fixes m :: "'a \<Rightarrow> 'k::linordered_idom"
  shows "mset (js_sort (\<lambda>a b. m b - m a) xs) = mset xs"
  by (simp add: js_sort_desc)



lemma take10_length: "length (take 10 xs) \<le> 10"
  by simp





section \<open>Properties of the user activity report\<close>

lemma countOr0_set:
  "countOr0 (obj_set acc k v) k' = (if k' = k then v else countOr0 acc k')"
  by (simp add: countOr0_def obj_get_set)

lemma countOr0_Nil: "countOr0 [] k = 0"
  by (simp add: countOr0_def)

lemma byStatus_fold_count:
  "countOr0 (fold (\<lambda>a acc. let status = orUnknown (a_status a)
                            in obj_set acc status (countOr0 acc status + 1)) activities acc0) k =
   countOr0 acc0 k + length (filter (\<lambda>a. orUnknown (a_status a) = k) activities)"
  by (induction activities arbitrary: acc0) (auto simp: countOr0_set Let_def)

lemma byStatus_count:
  "countOr0 (byStatus activities) k = length (filter (\<lambda>a. orUnknown (a_status a) = k) activities)"
  unfolding byStatus_def byStatus_fold_count by (simp add: countOr0_Nil)

lemma disjoint_filters_length:
  "(\<And>x. \<not> (P x \<and> Q x)) \<Longrightarrow> length (filter P xs) + length (filter Q xs) \<le> length xs"
  by (induction xs) auto

lemma success_failed_le:
  "countOr0 (byStatus activities) ''SUCCESS'' + countOr0 (byStatus activities) ''FAILED''
     \<le> length activities"
  unfolding byStatus_count by (rule disjoint_filters_length) auto

lemma fl_rel:
  assumes "pow2 (- 1022) \<le> x"
  shows "fl x \<le> x * (1 + 1 / 2 ^ 53)" and "x * (1 - 1 / 2 ^ 53) \<le> fl x"
proof -
  have e: "\<bar>fl x - x\<bar> \<le> x / 2 ^ 53" using assms by (rule fl_error_normal)
  have d: "x * (1 + 1 / 2 ^ 53) = x + x / 2 ^ 53" "x * (1 - 1 / 2 ^ 53) = x - x / 2 ^ 53"
    by (simp_all add: algebra_simps)
  show "fl x \<le> x * (1 + 1 / 2 ^ 53)" unfolding d using e by linarith
  show "x * (1 - 1 / 2 ^ 53) \<le> fl x" unfolding d using e by linarith
qed

lemma normal_small: "pow2 (- 1022) \<le> 1 / 2048"
proof -
  have "pow2 (- 1022) \<le> pow2 (- 11)" by (rule pow2_mono) simp
  then show ?thesis by (simp add: pow2_def [of "- 11"])
qed

lemma finite_small: "x < 512 \<Longrightarrow> x < pow2 1024"
proof -
  have "pow2 9 \<le> pow2 1024" by (rule pow2_mono) simp
  then have "512 \<le> pow2 1024" by (simp add: pow2_def [of 9])
  then show "x < 512 \<Longrightarrow> x < pow2 1024" by linarith
qed

lemma toDouble_zero: "toDouble 0 = Some 0"
  by (simp add: toDouble_def)

lemma rate_bound:
  assumes "0 < n" "n \<le> 1000" "c \<le> n"
  shows "\<exists>s. jsTimes (jsDiv (of_nat c) (of_nat n)) 100 = Some s \<and> 0 \<le> s \<and>
             s \<le> 100 * (of_nat c / of_nat n) * (1 + 1 / 2 ^ 53) ^ 2"
proof (cases "c = 0")
  case True
  then show ?thesis using assms(1) by (simp add: jsDiv_def jsTimes_def toDouble_zero)
next
  case False
  define x :: rat where "x = of_nat c / of_nat n"
  define k :: rat where "k = 1 + 1 / 2 ^ 53"
  have k: "1 \<le> k" "k \<le> 2" by (simp_all add: k_def)
  have npos: "(0::rat) < of_nat n" using assms(1) by simp
  have "(1::rat) \<le> of_nat c" using False by simp
  then have "1 / of_nat n \<le> x" unfolding x_def using npos by (simp add: divide_right_mono)
  moreover have "(1::rat) / 1000 \<le> 1 / of_nat n"
    using assms(1,2) by (simp add: frac_le)
  ultimately have xlo: "1 / 1000 \<le> x" by linarith
  have "(of_nat c :: rat) \<le> of_nat n" using assms(3) by simp
  then have xhi: "x \<le> 1" unfolding x_def using npos by (simp add: divide_le_eq)
  have xn: "pow2 (- 1022) \<le> x" using normal_small xlo by linarith
  define q where "q = fl x"
  have q1: "q \<le> x * k" and q2: "x * (1 - 1 / 2 ^ 53) \<le> q"
    using fl_rel [OF xn] by (simp_all add: q_def k_def)
  have "x * (1 / 2) \<le> x * (1 - 1 / 2 ^ 53)" using xlo by (intro mult_left_mono) simp_all
  then have qlo: "1 / 2000 \<le> q" using q2 xlo by linarith
  have "x * k \<le> 1 * 2" using xhi k xlo by (intro mult_mono) simp_all
  then have qhi: "q \<le> 2" using q1 by linarith
  have "\<bar>q\<bar> < pow2 1024" using qlo qhi by (intro finite_small) simp
  then have d: "jsDiv (of_nat c) (of_nat n) = Some q"
    using assms(1) by (simp add: jsDiv_def toDouble_def q_def x_def)
  have yn: "pow2 (- 1022) \<le> q * 100" using normal_small qlo by linarith
  define s where "s = fl (q * 100)"
  have s0: "0 \<le> s" unfolding s_def using qlo by (intro fl_nonneg) simp
  have "s \<le> q * 100 * k" using fl_rel(1) [OF yn] by (simp add: s_def k_def)
  also have "\<dots> \<le> (x * k) * 100 * k" using q1 k by (intro mult_right_mono) simp_all
  finally have s1: "s \<le> 100 * x * k ^ 2" by (simp add: power2_eq_square algebra_simps)
  have "100 * x * k ^ 2 \<le> 100 * 1 * 2 ^ 2"
    using xhi xlo k by (intro mult_mono power_mono) simp_all
  then have "s \<le> 400" using s1 by simp
  then have "\<bar>s\<bar> < pow2 1024" using s0 by (intro finite_small) simp
  then have "jsTimes (jsDiv (of_nat c) (of_nat n)) 100 = Some s"
    by (simp add: d jsTimes_def toDouble_def s_def)
  then show ?thesis using s0 s1 by (simp add: x_def k_def)
qed

lemma rounding_margin: "(100::rat) * (1 + 1 / 2 ^ 53) ^ 2 \<le> 100 + 1 / 2 ^ 45"
  by (simp add: power2_eq_square)

text \<open>
  C6, as the code computes it. In the summary of the user activity report, successRate
  and failureRate are finite and not negative for every list of activities (the division
  by the number of activities is only evaluated when that number is positive), and both
  are 0 when the list is empty. Each rate is rounded twice, by the division and by the
  multiplication, so their sum is at most \<open>100 + 1 / 2 ^ 45\<close>.
\<close>

theorem activity_rates_bounded:
  "\<exists>s f. successRate (getUserActivitySummary rows) = Some s \<and>
          failureRate (getUserActivitySummary rows) = Some f \<and>
          0 \<le> s \<and> 0 \<le> f \<and> s + f \<le> 100 + 1 / 2 ^ 45 \<and>
          (rows = [] \<longrightarrow> s = 0 \<and> f = 0)"
proof (cases "rows = []")
  case True
  then show ?thesis
    by (simp add: getUserActivitySummary_def activitySummaryOf_def)
next
  case False
  define acts where "acts = take 1000 rows"
  define n where "n = length acts"
  define cs where "cs = countOr0 (byStatus acts) ''SUCCESS''"
  define cf where "cf = countOr0 (byStatus acts) ''FAILED''"
  define k :: rat where "k = (1 + 1 / 2 ^ 53) ^ 2"
  have n: "0 < n" "n \<le> 1000" using False by (simp_all add: n_def acts_def)
  have le: "cs + cf \<le> n" unfolding cs_def cf_def n_def by (rule success_failed_le)
  then have c: "cs \<le> n" "cf \<le> n" by simp_all
  from rate_bound [OF n c(1)] obtain s where
    s: "jsTimes (jsDiv (of_nat cs) (of_nat n)) 100 = Some s" "0 \<le> s"
       "s \<le> 100 * (of_nat cs / of_nat n) * k"
    unfolding k_def by blast
  from rate_bound [OF n c(2)] obtain f where
    f: "jsTimes (jsDiv (of_nat cf) (of_nat n)) 100 = Some f" "0 \<le> f"
       "f \<le> 100 * (of_nat cf / of_nat n) * k"
    unfolding k_def by blast
  have npos: "(0::rat) < of_nat n" using n(1) by simp
  have "(of_nat (cs + cf) :: rat) \<le> of_nat n" using le by (simp only: of_nat_le_iff)
  then have r: "(of_nat cs + of_nat cf) / (of_nat n :: rat) \<le> 1"
    using npos by (simp add: divide_le_eq)
  have kpos: "0 \<le> k" by (simp add: k_def)
  have "s + f \<le> 100 * (of_nat cs / of_nat n) * k + 100 * (of_nat cf / of_nat n) * k"
    using s(3) f(3) by linarith
  also have "\<dots> = ((of_nat cs + of_nat cf) / of_nat n) * (100 * k)"
    by (simp add: add_divide_distrib algebra_simps)
  also have "\<dots> \<le> 1 * (100 * k)"
    using r kpos by (intro mult_right_mono) simp_all
  also have "\<dots> \<le> 100 + 1 / 2 ^ 45"
    using rounding_margin by (simp add: k_def)
  finally have b: "s + f \<le> 100 + 1 / 2 ^ 45" .
  have "successRate (getUserActivitySummary rows) = Some s"
    using n(1) s(1)
    by (simp add: getUserActivitySummary_def activitySummaryOf_def acts_def [symmetric]
        n_def [symmetric] cs_def [symmetric])
  moreover have "failureRate (getUserActivitySummary rows) = Some f"
    using n(1) f(1)
    by (simp add: getUserActivitySummary_def activitySummaryOf_def acts_def [symmetric]
        n_def [symmetric] cf_def [symmetric])
  ultimately show ?thesis using s(2) f(2) b False by simp
qed

theorem activity_rates_bounded_witness:
  "\<exists>s f. successRate (getUserActivitySummary []) = Some s \<and>
          failureRate (getUserActivitySummary []) = Some f \<and>
          0 \<le> s \<and> 0 \<le> f \<and> s + f \<le> 100 + 1 / 2 ^ 45 \<and> s = 0 \<and> f = 0"
  using activity_rates_bounded [of "[]"] by simp

lemma eleven_rates:
  "jsTimes (jsDiv 2 11) 100 = Some (5117726849284655 / 281474976710656)"
  "jsTimes (jsDiv 9 11) 100 = Some (5757442705445237 / 70368744177664)"
proof -
  have "toDouble (2 / 11) = Some (of_int 6550690367084358 * pow2 (- 3 - 52))"
    by (rule toDouble_cert [OF _ _ _ _ _ roundHalfEven_near]) (simp_all add: pow2_def)
  then have a: "jsDiv 2 11 = Some (3275345183542179 / 18014398509481984)"
    by (simp add: jsDiv_def pow2_def)
  have "toDouble (3275345183542179 / 18014398509481984 * 100) =
        Some (of_int 5117726849284655 * pow2 (4 - 52))"
    by (rule toDouble_cert [OF _ _ _ _ _ roundHalfEven_near]) (simp_all add: pow2_def)
  then show "jsTimes (jsDiv 2 11) 100 = Some (5117726849284655 / 281474976710656)"
    by (simp add: a jsTimes_def pow2_def)
  have "toDouble (9 / 11) = Some (of_int 7369526662969903 * pow2 (- 1 - 52))"
    by (rule toDouble_cert [OF _ _ _ _ _ roundHalfEven_near]) (simp_all add: pow2_def)
  then have b: "jsDiv 9 11 = Some (7369526662969903 / 9007199254740992)"
    by (simp add: jsDiv_def pow2_def)
  have "toDouble (7369526662969903 / 9007199254740992 * 100) =
        Some (of_int 5757442705445237 * pow2 (6 - 52))"
    by (rule toDouble_cert [OF _ _ _ _ _ roundHalfEven_near]) (simp_all add: pow2_def)
  then show "jsTimes (jsDiv 9 11) 100 = Some (5757442705445237 / 70368744177664)"
    by (simp add: b jsTimes_def pow2_def)
qed

text \<open>
  C6, as stated, fails: for 2 activities with status SUCCESS and 9 with status FAILED the
  rates are the doubles 18.181818181818183 and 81.81818181818183, and their sum is above
  100.
\<close>

theorem activity_rates_exceed_100:
  "successRate (getUserActivitySummary elevenActivities) =
     Some (5117726849284655 / 281474976710656) \<and>
   failureRate (getUserActivitySummary elevenActivities) =
     Some (5757442705445237 / 70368744177664) \<and>
   \<not> (5117726849284655 / 281474976710656 + 5757442705445237 / 70368744177664 \<le> (100::rat))"
proof -
  have t: "take 1000 elevenActivities = elevenActivities" "length elevenActivities = 11"
    by (simp_all add: elevenActivities_def)
  have c: "countOr0 (byStatus elevenActivities) ''SUCCESS'' = 2"
          "countOr0 (byStatus elevenActivities) ''FAILED'' = 9"
    by (simp_all add: byStatus_count elevenActivities_def successActivity_def
        failedActivity_def orUnknown_def)
  show ?thesis
    by (simp add: getUserActivitySummary_def activitySummaryOf_def t c eleven_rates)
qed

section \<open>Properties of the pagination\<close>

lemma skip_nonwhite:
  "whiteSpaceLength s = 0 \<Longrightarrow> skipWhiteSpace s = s"
  by (simp add: skipWhiteSpace.simps)

lemma parseInt_samples:
  "parseInt ''0'' = Some 0" "parseInt ''-5'' = Some (- 5)" "parseInt ''abc'' = None"
  "parseInt ''1'' = Some 1" "parseInt ''20'' = Some 20" "parseInt ''30'' = Some 30"
  "parseInt ''29'' = Some 29" "parseInt ''90'' = Some 90"
  "parseInt ''100100000'' = Some 100100000"
  by (simp_all add: parseInt_def skip_nonwhite whiteSpaceLength_def isDigit_def digitsValue_def)

lemma parseInt_no_break_space:
  "parseInt [char_of (194::nat), char_of (160::nat), CHR ''2'', CHR ''9''] = Some 29"
  by (simp add: parseInt_def skipWhiteSpace.simps whiteSpaceLength_def isDigit_def
      digitsValue_def)

lemma listAssets_paging_bounds:
  "1 \<le> page (listAssets_paging qpage qpageSize) \<and>
   1 \<le> pageSize (listAssets_paging qpage qpageSize) \<and>
   pageSize (listAssets_paging qpage qpageSize) \<le> 100"
  by (simp add: listAssets_paging_def)

lemma listAssets_paging_default:
  "listAssets_paging None None = \<lparr> page = 1, pageSize = 20 \<rparr>"
  by (simp add: listAssets_paging_def orDefault_def jsOr_def parseInt_samples)

text \<open>
  C8, at inputs where the recent-activity endpoint leaves the claimed range. The page
  "0" gives the effective page 0, the limit "-5" gives the page size -5 and the limit "0"
  gives the page size 0, all below 1; a string with no digits gives \<open>NaN\<close> for both.
  Only the upper bound 100 is enforced there, while \<open>listAssets\<close> enforces both bounds
  (\<open>listAssets_paging_bounds\<close>).
\<close>

theorem recent_activity_paging_unclamped:
  "getRecentActivity_paging (Some ''0'') (Some ''-5'') =
     \<lparr> pageNum = Some 0, limitNum = Some (- 5), skip = Some 5 \<rparr> \<and>
   getRecentActivity_paging None (Some ''0'') =
     \<lparr> pageNum = Some 1, limitNum = Some 0, skip = Some 0 \<rparr> \<and>
   getRecentActivity_paging (Some ''abc'') (Some ''abc'') =
     \<lparr> pageNum = None, limitNum = None, skip = None \<rparr>"
  by (simp add: getRecentActivity_paging_def orDefault_def jsMin_def parseInt_samples Let_def)

section \<open>Properties of the log cleanup\<close>

lemma setDateTo_days_back:
  "setDateTo z now (getDate z now - d) = TimeClip (UTC z (LocalTime z now - d * msPerDay))"
proof -
  have "(Day (LocalTime z now) - d) * msPerDay + TimeWithinDay (LocalTime z now) =
        LocalTime z now - d * msPerDay"
    by (simp add: Day_def TimeWithinDay_def algebra_simps)
  then show ?thesis
    by (simp add: setDateTo_def getDate_def Let_def)
qed

lemma fixedZone_days_back:
  "UTC (fixedZone k) (LocalTime (fixedZone k) now - d * msPerDay) = now - d * msPerDay"
  by (simp add: UTC_def LocalTime_def fixedZone_def)

text \<open>
  C4, as the code computes it. For a SUPER_ADMIN whose \<open>olderThanDays\<close> parses to an
  integer \<open>d\<close>: when \<open>d < 30\<close> the request is answered with 400 and the activity logs are
  unchanged. When \<open>30 \<le> d\<close> and the cutoff is a valid date, the logs created before the
  cutoff, and only those, are deleted, the answer carries their number, and one
  LOGS_CLEANUP record describing the deletion is added. The cutoff is the instant that
  shows the local time of day of now, \<open>d\<close> calendar days earlier; in a zone with a fixed
  offset that is now minus \<open>d\<close> times 86400000 milliseconds (\<open>fixedZone_days_back\<close>).
\<close>

theorem deleteOldLogs_floor:
  assumes "parseInt (orDefault olderThanDays ''90'') = Some d"
  shows "(d < 30 \<longrightarrow>
            deleteOldLogs (Some ''SUPER_ADMIN'') userId olderThanDays now z logs =
              (BadRequest400, logs)) \<and>
         (30 \<le> d \<and> TimeClip (UTC z (LocalTime z now - d * msPerDay)) = Some cutoff \<longrightarrow>
            (\<exists>r. deleteOldLogs (Some ''SUPER_ADMIN'') userId olderThanDays now z logs =
                  (Success200 (length (filter (\<lambda>l. log_createdAt l < cutoff) logs)),
                   filter (\<lambda>l. \<not> log_createdAt l < cutoff) logs @ [r]) \<and>
                 log_action r = ''LOGS_CLEANUP'' \<and>
                 log_description r =
                   ''Deleted '' @
                   showNat (length (filter (\<lambda>l. log_createdAt l < cutoff) logs)) @
                   '' logs older than '' @ showNumber (Some d) @ '' days''))"
  using assms
  by (simp add: deleteOldLogs_def deleteOldLogs_cutoff_def jsLess_def setDate_def
      setDateTo_days_back cleanupRecord_def Let_def)

theorem deleteOldLogs_floor_witness:
  "deleteOldLogs (Some ''SUPER_ADMIN'') (Some ''u1'') (Some ''29'') 1704582000000
     (fixedZone 10800000) [oldLog, recentLog] = (BadRequest400, [oldLog, recentLog]) \<and>
   (\<exists>r. deleteOldLogs (Some ''SUPER_ADMIN'') (Some ''u1'') (Some ''30'') 1704582000000
          (fixedZone 10800000) [oldLog, recentLog] = (Success200 1, [recentLog, r]) \<and>
        log_action r = ''LOGS_CLEANUP'' \<and>
        log_description r = ''Deleted 1 logs older than 30 days'')"
proof -
  have p29: "parseInt (orDefault (Some ''29'') ''90'') = Some 29"
    and p30: "parseInt (orDefault (Some ''30'') ''90'') = Some 30"
    by (simp_all add: orDefault_def parseInt_samples)
  have s1: "showNat (Suc 0) = ''1''"
    by code_simp
  have s30: "showNumber (Some 30) = ''30''"
    by code_simp
  have c: "TimeClip (UTC (fixedZone 10800000)
             (LocalTime (fixedZone 10800000) 1704582000000 - 30 * msPerDay)) = Some 1701990000000"
    unfolding fixedZone_days_back by (simp add: TimeClip_def msPerDay_def)
  have a: "deleteOldLogs (Some ''SUPER_ADMIN'') (Some ''u1'') (Some ''29'') 1704582000000
             (fixedZone 10800000) [oldLog, recentLog] = (BadRequest400, [oldLog, recentLog])"
    using deleteOldLogs_floor [OF p29, of "Some ''u1''" 1704582000000 "fixedZone 10800000"
        "[oldLog, recentLog]"]
    by simp
  have b: "\<exists>r. deleteOldLogs (Some ''SUPER_ADMIN'') (Some ''u1'') (Some ''30'') 1704582000000
          (fixedZone 10800000) [oldLog, recentLog] = (Success200 1, [recentLog, r]) \<and>
        log_action r = ''LOGS_CLEANUP'' \<and>
        log_description r = ''Deleted 1 logs older than 30 days''"
    using deleteOldLogs_floor [OF p30, of "Some ''u1''" 1704582000000 "fixedZone 10800000"
        "[oldLog, recentLog]" 1701990000000] c
    by (simp add: oldLog_def recentLog_def s1 s30)
  from a b show ?thesis by blast
qed

text \<open>
  C4, as stated, fails for a number of days that puts the cutoff out of the range of
  dates: \<open>olderThanDays\<close> 100100000 parses to an integer above 30, the cutoff is an invalid
  date, and the request is answered with 500; no log is deleted and no LOGS_CLEANUP
  record is written.
\<close>

theorem deleteOldLogs_floor_out_of_range:
  "parseInt (orDefault (Some ''100100000'') ''90'') = Some 100100000 \<and>
   deleteOldLogs (Some ''SUPER_ADMIN'') (Some ''u1'') (Some ''100100000'') 1704582000000
     (fixedZone 10800000) [oldLog, recentLog] = (Failure500, [oldLog, recentLog])"
proof -
  have p: "parseInt (orDefault (Some ''100100000'') ''90'') = Some 100100000"
    by (simp add: orDefault_def parseInt_samples)
  have c: "TimeClip (UTC (fixedZone 10800000)
             (LocalTime (fixedZone 10800000) 1704582000000 - 100100000 * msPerDay)) = None"
    unfolding fixedZone_days_back by (simp add: TimeClip_def msPerDay_def)
  show ?thesis
    by (simp add: p c deleteOldLogs_def deleteOldLogs_cutoff_def jsLess_def setDate_def
        setDateTo_days_back)
qed

text \<open>
  C10. There is a body value of \<open>olderThanDays\<close> for which \<open>parseInt\<close> gives \<open>NaN\<close>, the
  test \<open>days < 30\<close> is false, the handler goes on to the deletion with an invalid cutoff
  date and does not answer 400. The handler answers 400 exactly when the value parses to
  a number below 30.
\<close>

theorem deleteOldLogs_nan_bypass:
  "(\<exists>olderThanDays.
      parseInt (orDefault olderThanDays ''90'') = None \<and>
      \<not> jsLess (parseInt (orDefault olderThanDays ''90'')) 30 \<and>
      deleteOldLogs_cutoff (Some ''SUPER_ADMIN'') olderThanDays now tz = Inr (None, None) \<and>
      fst (deleteOldLogs (Some ''SUPER_ADMIN'') userId olderThanDays now tz logs) \<noteq> BadRequest400) \<and>
   ((deleteOldLogs_cutoff (Some ''SUPER_ADMIN'') body now tz = Inl BadRequest400) =
    (\<exists>d. parseInt (orDefault body ''90'') = Some d \<and> d < 30))"
proof -
  have p: "parseInt (orDefault (Some ''abc'') ''90'') = None"
    by (simp add: orDefault_def parseInt_samples)
  have a: "deleteOldLogs_cutoff (Some ''SUPER_ADMIN'') (Some ''abc'') now tz = Inr (None, None)"
    by (simp add: deleteOldLogs_cutoff_def p jsLess_def setDate_def)
  have b: "fst (deleteOldLogs (Some ''SUPER_ADMIN'') userId (Some ''abc'') now tz logs) \<noteq> BadRequest400"
    by (simp add: deleteOldLogs_def a)
  have c: "(deleteOldLogs_cutoff (Some ''SUPER_ADMIN'') body now tz = Inl BadRequest400) =
           (\<exists>d. parseInt (orDefault body ''90'') = Some d \<and> d < 30)"
    by (cases "parseInt (orDefault body ''90'')")
       (simp_all add: deleteOldLogs_cutoff_def jsLess_def Let_def)
  from p a b have "\<exists>olderThanDays.
      parseInt (orDefault olderThanDays ''90'') = None \<and>
      \<not> jsLess (parseInt (orDefault olderThanDays ''90'')) 30 \<and>
      deleteOldLogs_cutoff (Some ''SUPER_ADMIN'') olderThanDays now tz = Inr (None, None) \<and>
      fst (deleteOldLogs (Some ''SUPER_ADMIN'') userId olderThanDays now tz logs) \<noteq> BadRequest400"
    by (intro exI [of _ "Some ''abc''"]) (simp add: jsLess_def)
  with c show ?thesis by blast
qed



section \<open>Properties of the comprehensive financial report\<close>

lemma growth_absent_without_dates:
  "\<not> truthy startDate \<Longrightarrow> \<not> truthy endDate \<Longrightarrow>
   \<exists>r. getComprehensiveFinancialReport newDate startDate endDate ds ws = Inr r \<and>
       growthMetrics r = None"
  by (simp add: getComprehensiveFinancialReport_def parseDateFilters_def findMany_def Let_def)

lemma previous_window_of_range:
  "previousPeriodWhere \<lparr> gte = Some (Some s), lte = Some (Some e) \<rparr> =
     Some \<lparr> where_gte = Some (Some (s - (e - s))), where_lte = None, where_lt = Some (Some s) \<rparr>"
  by (simp add: previousPeriodWhere_def)

lemma growth_present_with_both_dates:
  assumes "newDate s = Some ts" "newDate e = Some te" "s \<noteq> []" "e \<noteq> []"
  shows "\<exists>r g. getComprehensiveFinancialReport newDate (Some s) (Some e) ds ws = Inr r \<and>
               growthMetrics r = Some g \<and>
               depositGrowth g =
                 growthRate (fr_approvedDeposits r)
                   (sumAmount (filter (\<lambda>d. transactionStatus d = ''APPROVED'' \<and>
                                            ts - (te - ts) \<le> createdAt d \<and> createdAt d < ts) ds))"
  using assms
  by (simp add: getComprehensiveFinancialReport_def parseDateFilters_def findMany_def Let_def
      truthy_def validWhere_def previousPeriodWhere_def aggregateApproved_def matchesWhere_def)

lemma start_only_fails:
  assumes "truthy startDate" "\<not> truthy endDate"
  shows "getComprehensiveFinancialReport newDate startDate endDate ds ws = Inl ReportFailed500"
  using assms
  by (auto simp: getComprehensiveFinancialReport_def parseDateFilters_def findMany_def Let_def
      previousPeriodWhere_def truthy_def split: option.splits prod.splits)

lemma end_only_compares_with_all_time:
  assumes "\<not> truthy startDate" "newDate e = Some te" "e \<noteq> []"
  shows "\<exists>r g. getComprehensiveFinancialReport newDate startDate (Some e) ds ws = Inr r \<and>
               growthMetrics r = Some g \<and>
               depositGrowth g =
                 growthRate (fr_approvedDeposits r) (sumAmount (withStatus ''APPROVED'' ds))"
  using assms
  by (simp add: getComprehensiveFinancialReport_def parseDateFilters_def findMany_def Let_def
      truthy_def validWhere_def previousPeriodWhere_def aggregateApproved_def matchesWhere_def
      withStatus_def)

text \<open>
  C3, at inputs where the claim fails. With only \<open>startDate\<close> supplied the handler
  does not return a report with null growth metrics: reading the missing end date raises,
  and the answer is the 500 failure. With only \<open>endDate\<close> supplied the growth metrics are
  not null: they are computed against the approved deposits of all time.
\<close>

theorem growth_with_one_date:
  "getComprehensiveFinancialReport sampleNewDate (Some ''2024-01-01'') None [sampleDeposit] [] =
     Inl ReportFailed500 \<and>
   map_sum id growthMetrics
     (getComprehensiveFinancialReport sampleNewDate None (Some ''2024-01-31'') [sampleDeposit] []) =
     Inr (Some \<lparr> depositGrowth = Some 0, withdrawalGrowth = None \<rparr>)"
  by (simp add: getComprehensiveFinancialReport_def parseDateFilters_def findMany_def Let_def
      truthy_def validWhere_def previousPeriodWhere_def aggregateApproved_def matchesWhere_def
      withStatus_def sampleNewDate_def sampleDeposit_def sumAmount_def growthRate_def)


section \<open>Properties of the transaction trends\<close>

lemma Day_shift: "Day (t - k * msPerDay) = Day t - k"
  by (simp add: Day_def msPerDay_def)

lemma isoDate_Day: "Day t = Day t' \<Longrightarrow> isoDate t = isoDate t'"
  by (simp add: isoDate_def)

lemma weekly_key:
  "getGroupKey z ''weekly'' t =
     map_option isoDate (TimeClip (UTC z (LocalTime z t - getDay z t * msPerDay)))"
  by (simp add: getGroupKey_def setDateTo_days_back split: option.split)

lemma Day_mult: "Day (k * msPerDay) = k"
  by (simp add: Day_def msPerDay_def)

lemma WeekDay_range: "0 \<le> WeekDay t \<and> WeekDay t \<le> 6"
  by (simp add: WeekDay_def) 

lemma WeekDay_week_start: "WeekDay ((Day t - WeekDay t) * msPerDay) = 0"
proof -
  have "Day t - (Day t + 4) mod 7 + 4 = 7 * ((Day t + 4) div 7)"
    by (simp add: minus_mod_eq_mult_div [symmetric])
  then show ?thesis
    by (simp add: WeekDay_def [of "_ * msPerDay"] Day_mult) (simp add: WeekDay_def)
qed

lemma weekly_key_utc:
  assumes "\<bar>t - WeekDay t * msPerDay\<bar> \<le> 8640000000000000"
  shows "getGroupKey (fixedZone 0) ''weekly'' t = Some (isoDate ((Day t - WeekDay t) * msPerDay))"
proof -
  have "getGroupKey (fixedZone 0) ''weekly'' t = Some (isoDate (t - WeekDay t * msPerDay))"
    using assms
    by (simp add: weekly_key getDay_def UTC_def LocalTime_def fixedZone_def TimeClip_def)
  also have "isoDate (t - WeekDay t * msPerDay) = isoDate ((Day t - WeekDay t) * msPerDay)"
    by (rule isoDate_Day) (simp only: Day_shift Day_mult)
  finally show ?thesis .
qed

lemma same_week_same_key_utc:
  assumes "\<bar>t1 - WeekDay t1 * msPerDay\<bar> \<le> 8640000000000000"
    and "\<bar>t2 - WeekDay t2 * msPerDay\<bar> \<le> 8640000000000000"
    and "Day t1 - WeekDay t1 = Day t2 - WeekDay t2"
  shows "getGroupKey (fixedZone 0) ''weekly'' t1 = getGroupKey (fixedZone 0) ''weekly'' t2"
  by (simp only: weekly_key_utc [OF assms(1)] weekly_key_utc [OF assms(2)] assms(3))

lemma addDeposit_new:
  "addDeposit k a [] =
     [(k, \<lparr> t_date = k, t_deposits = a, t_withdrawals = 0, t_netFlow = 0,
             depositCount = 1, withdrawalCount = 0 \<rparr>)]"
  by (simp add: addDeposit_def trendFor_def)

lemma addDeposit_same:
  "addDeposit k a ((k, t) # rest) =
     (k, t\<lparr> t_deposits := t_deposits t + a, depositCount := depositCount t + 1 \<rparr>) # rest"
  by (simp add: addDeposit_def trendFor_def)

lemma same_key_one_bucket:
  assumes "getGroupKey z period (createdAt d1) = Some k"
    and "getGroupKey z period (createdAt d2) = Some k"
  shows "trendBuckets z period [d1, d2] [] =
           Some [\<lparr> t_date = k,
                   t_deposits = amount d1 + amount d2, t_withdrawals = 0,
                   t_netFlow = amount d1 + amount d2,
                   depositCount = 2, withdrawalCount = 0 \<rparr>]"
  by (simp add: trendBuckets_def assms addDeposit_new addDeposit_same obj_values_def)

lemma addDeposit_other:
  "k \<noteq> k' \<Longrightarrow> addDeposit k a ((k', t) # rest) = (k', t) # addDeposit k a rest"
  by (cases "obj_get rest k")
     (auto simp: addDeposit_def trendFor_def obj_get_set split: option.splits)

lemma sample_days:
  "getDay (fixedZone 10800000) 1704751200000 = 2"
  "getDay (fixedZone 10800000) 1704790800000 = 2"
  by code_simp+

lemma sample_local_dates:
  "isoDate (LocalTime (fixedZone 10800000) 1704751200000) = ''2024-01-09''"
  "isoDate (LocalTime (fixedZone 10800000) 1704790800000) = ''2024-01-09''"
  by code_simp+

lemma sample_keys:
  "getGroupKey (fixedZone 10800000) ''weekly'' 1704751200000 = Some ''2024-01-06''"
  "getGroupKey (fixedZone 10800000) ''weekly'' 1704790800000 = Some ''2024-01-07''"
  by code_simp+

text \<open>
  C7, at an input where the weekly key splits one week. The server's local time is three
  hours ahead of UTC. Two deposits are made on the same local day, Tuesday 2024-01-09, at
  01:00 and at 12:00 local time. The day of the week is taken in local time and the date
  of the key in UTC, so the keys are 2024-01-06 and 2024-01-07 and the deposits fall
  into two buckets of count 1. With local time equal to UTC the key is the date of the
  Sunday that begins the week (\<open>weekly_key_utc\<close>, \<open>WeekDay_week_start\<close>) and two deposits
  with the same key share one bucket (\<open>same_key_one_bucket\<close>).
\<close>

theorem weekly_key_splits_a_week:
  "getDay (fixedZone 10800000) (createdAt tuesdayEarly) = 2 \<and>
   getDay (fixedZone 10800000) (createdAt tuesdayNoon) = 2 \<and>
   isoDate (LocalTime (fixedZone 10800000) (createdAt tuesdayEarly)) = ''2024-01-09'' \<and>
   isoDate (LocalTime (fixedZone 10800000) (createdAt tuesdayNoon)) = ''2024-01-09'' \<and>
   getGroupKey (fixedZone 10800000) ''weekly'' (createdAt tuesdayEarly) = Some ''2024-01-06'' \<and>
   getGroupKey (fixedZone 10800000) ''weekly'' (createdAt tuesdayNoon) = Some ''2024-01-07'' \<and>
   trendBuckets (fixedZone 10800000) ''weekly'' [tuesdayEarly, tuesdayNoon] [] =
     Some [\<lparr> t_date = ''2024-01-06'', t_deposits = 100, t_withdrawals = 0, t_netFlow = 100,
             depositCount = 1, withdrawalCount = 0 \<rparr>,
           \<lparr> t_date = ''2024-01-07'', t_deposits = 50, t_withdrawals = 0, t_netFlow = 50,
             depositCount = 1, withdrawalCount = 0 \<rparr>]"
proof -
  have e: "createdAt tuesdayEarly = 1704751200000" "amount tuesdayEarly = 100"
    and n: "createdAt tuesdayNoon = 1704790800000" "amount tuesdayNoon = 50"
    by (simp_all add: tuesdayEarly_def tuesdayNoon_def)
  have "addDeposit ''2024-01-07'' 50 (addDeposit ''2024-01-06'' 100 []) =
      [(''2024-01-06'', \<lparr> t_date = ''2024-01-06'', t_deposits = 100, t_withdrawals = 0,
                           t_netFlow = 0, depositCount = 1, withdrawalCount = 0 \<rparr>),
       (''2024-01-07'', \<lparr> t_date = ''2024-01-07'', t_deposits = 50, t_withdrawals = 0,
                           t_netFlow = 0, depositCount = 1, withdrawalCount = 0 \<rparr>)]"
    by (simp add: addDeposit_new addDeposit_other)
  then have b: "trendBuckets (fixedZone 10800000) ''weekly'' [tuesdayEarly, tuesdayNoon] [] =
     Some [\<lparr> t_date = ''2024-01-06'', t_deposits = 100, t_withdrawals = 0, t_netFlow = 100,
             depositCount = 1, withdrawalCount = 0 \<rparr>,
           \<lparr> t_date = ''2024-01-07'', t_deposits = 50, t_withdrawals = 0, t_netFlow = 50,
             depositCount = 1, withdrawalCount = 0 \<rparr>]"
    by (simp add: trendBuckets_def obj_values_def e n sample_keys)
  show ?thesis
    using b by (simp add: e n sample_days sample_local_dates sample_keys)
qed

section \<open>Properties of the portfolio assets\<close>

lemma create_writes:
  assumes "createPortfolioAsset strToNum newId body db = (resp, db')"
  shows "(\<exists>row. resp = Created201 row \<and>
                portfolioAssets db' = portfolioAssets db @ [row] \<and>
                lossGain row = (closeValue row - costPrice row) * stock row) \<or>
         (db' = db \<and> (\<forall>row. resp \<noteq> Created201 row))"
  using assms
  by (auto simp: createPortfolioAsset_def calcLossGain_def Let_def
      split: option.splits if_splits prod.splits)

lemma update_writes:
  assumes "updatePortfolioAsset strToNum i body db = (resp, db')"
  shows "(\<exists>current row. findPortfolioAsset db i = Some current \<and> resp = Ok200 row \<and>
                portfolioAssets db' =
                  map (\<lambda>r. if pa_id r = i then row else r) (portfolioAssets db) \<and>
                pa_id row = pa_id current \<and>
                lossGain row = (closeValue row - costPrice row) * stock row) \<or>
         (db' = db \<and> (\<forall>row. resp \<noteq> Ok200 row))"
  using assms
  by (auto simp: updatePortfolioAsset_def calcLossGain_def Let_def
      split: option.splits if_splits)

text \<open>
  C5. After a successful \<open>createPortfolioAsset\<close> or \<open>updatePortfolioAsset\<close> the stored
  \<open>lossGain\<close> of the affected row is (closeValue - costPrice) * stock of the values stored
  in that row, whatever the body supplies or omits. No call writes \<open>lossGain\<close> in another
  way: every row of the table after a call is a row of the table before it, or satisfies
  the equation.
\<close>

theorem lossGain_recomputed:
  "(createPortfolioAsset strToNum newId body db = (Created201 row, db') \<longrightarrow>
      portfolioAssets db' = portfolioAssets db @ [row] \<and>
      lossGain row = (closeValue row - costPrice row) * stock row) \<and>
   (updatePortfolioAsset strToNum i body db = (Ok200 row, db') \<longrightarrow>
      portfolioAssets db' = map (\<lambda>r. if pa_id r = i then row else r) (portfolioAssets db) \<and>
      row \<in> set (portfolioAssets db') \<and>
      lossGain row = (closeValue row - costPrice row) * stock row) \<and>
   ((createPortfolioAsset strToNum newId body db = (resp, db') \<or>
     updatePortfolioAsset strToNum i body db = (resp, db')) \<longrightarrow>
      (\<forall>r \<in> set (portfolioAssets db').
         r \<in> set (portfolioAssets db) \<or>
         lossGain r = (closeValue r - costPrice r) * stock r))"
proof (intro conjI impI)
  assume a: "createPortfolioAsset strToNum newId body db = (Created201 row, db')"
  from create_writes [OF a]
  show "portfolioAssets db' = portfolioAssets db @ [row]"
    and "lossGain row = (closeValue row - costPrice row) * stock row"
    by auto
next
  assume a: "updatePortfolioAsset strToNum i body db = (Ok200 row, db')"
  from update_writes [OF a] obtain current where
    c: "findPortfolioAsset db i = Some current"
    and m: "portfolioAssets db' =
              map (\<lambda>r. if pa_id r = i then row else r) (portfolioAssets db)"
    and l: "lossGain row = (closeValue row - costPrice row) * stock row"
    by auto
  from c have "current \<in> set (portfolioAssets db)" "pa_id current = i"
    by (auto simp: findPortfolioAsset_def find_Some_iff)
  then have "row \<in> set (portfolioAssets db')"
    unfolding m by force
  with m l show "portfolioAssets db' =
              map (\<lambda>r. if pa_id r = i then row else r) (portfolioAssets db)"
    and "row \<in> set (portfolioAssets db')"
    and "lossGain row = (closeValue row - costPrice row) * stock row"
    by auto
next
  assume "createPortfolioAsset strToNum newId body db = (resp, db') \<or>
          updatePortfolioAsset strToNum i body db = (resp, db')"
  then show "\<forall>r \<in> set (portfolioAssets db').
         r \<in> set (portfolioAssets db) \<or>
         lossGain r = (closeValue r - costPrice r) * stock r"
  proof
    assume a: "createPortfolioAsset strToNum newId body db = (resp, db')"
    from create_writes [OF a] show ?thesis by auto
  next
    assume a: "updatePortfolioAsset strToNum i body db = (resp, db')"
    from update_writes [OF a] show ?thesis by auto
  qed
qed


theorem lossGain_recomputed_witness:
  "createPortfolioAsset (\<lambda>s. None) ''n1'' createBody sampleDb =
     (Created201 sampleRow, sampleDb\<lparr> portfolioAssets := [sampleRow] \<rparr>) \<and>
   lossGain sampleRow = (closeValue sampleRow - costPrice sampleRow) * stock sampleRow \<and>
   updatePortfolioAsset (\<lambda>s. None) ''n1'' stockOnlyBody (sampleDb\<lparr> portfolioAssets := [sampleRow] \<rparr>) =
     (Ok200 updatedRow, sampleDb\<lparr> portfolioAssets := [updatedRow] \<rparr>) \<and>
   lossGain updatedRow = (closeValue updatedRow - costPrice updatedRow) * stock updatedRow"
proof -
  have h1: "createPortfolioAsset (\<lambda>s. None) ''n1'' createBody sampleDb =
              (Created201 sampleRow, sampleDb\<lparr> portfolioAssets := [sampleRow] \<rparr>)"
    by (simp add: createPortfolioAsset_def createBody_def sampleDb_def sampleRow_def
        toNum_def Number_def findAsset_def calcLossGain_def Let_def)
  have h2: "updatePortfolioAsset (\<lambda>s. None) ''n1'' stockOnlyBody
              (sampleDb\<lparr> portfolioAssets := [sampleRow] \<rparr>) =
              (Ok200 updatedRow, sampleDb\<lparr> portfolioAssets := [updatedRow] \<rparr>)"
    by (simp add: updatePortfolioAsset_def stockOnlyBody_def sampleDb_def sampleRow_def
        updatedRow_def toNum_def Number_def findPortfolioAsset_def calcLossGain_def Let_def)
  have c1: "lossGain sampleRow = (closeValue sampleRow - costPrice sampleRow) * stock sampleRow"
    using lossGain_recomputed [of "\<lambda>s. None" "''n1''" createBody sampleDb sampleRow
        "sampleDb\<lparr> portfolioAssets := [sampleRow] \<rparr>"] h1
    by blast
  have c2: "lossGain updatedRow = (closeValue updatedRow - costPrice updatedRow) * stock updatedRow"
    using lossGain_recomputed [of "\<lambda>s. None" _ stockOnlyBody
        "sampleDb\<lparr> portfolioAssets := [sampleRow] \<rparr>" updatedRow
        "sampleDb\<lparr> portfolioAssets := [updatedRow] \<rparr>" "''n1''"] h2
    by blast
  from h1 h2 c1 c2 show ?thesis by blast
qed


end
